theory Spec2Isabelle
  imports Complex_Main "HOL-Library.Multiset"
begin


section \<open>Hex coordinates and the grid generator (page.tsx)\<close>

text \<open>
  The source's numbers are JavaScript numbers. Grid coordinates are only ever produced by
  integer loops, so they are modelled as \<open>int\<close>; sizes, pixel positions, zoom and pan
  are modelled as \<open>real\<close> (rounding, NaN and infinities are outside the model).

  \<^verbatim>\<open>interface Hex { q: number; r: number; s: number; }\<close>
  The fields are named \<open>hex_q\<close>, \<open>hex_r\<close>, \<open>hex_s\<close> here, since one-letter selectors
  would capture the variables of every statement.
\<close>

record Hex =
  hex_q :: int
  hex_r :: int
  hex_s :: int

text \<open>\<^verbatim>\<open>function createHex(q, r) { return { q, r, s: -q - r }; }\<close>\<close>

definition createHex :: "int \<Rightarrow> int \<Rightarrow> Hex" where
  "createHex q r = \<lparr>hex_q = q, hex_r = r, hex_s = - q - r\<rparr>"

text \<open>
  \<^verbatim>\<open>
  function generateHexGrid(radius) {
    const hexes = [];
    for (let q = -radius; q <= radius; q++) {
      for (let r = Math.max(-radius, -q - radius);
           r <= Math.min(radius, -q + radius); r++) {
        hexes.push(createHex(q, r));
      }
    }
    return hexes;
  }
  \<close>
  Each loop is a recursive function on its counter; the array under construction is the
  accumulator, and \<open>push\<close> appends at the end.
\<close>

function generateHexGrid_inner :: "int \<Rightarrow> int \<Rightarrow> int \<Rightarrow> Hex list \<Rightarrow> Hex list" where
  "generateHexGrid_inner radius q r hexes =
     (if r \<le> min radius (- q + radius)
      then generateHexGrid_inner radius q (r + 1) (hexes @ [createHex q r])
      else hexes)"
  by pat_completeness auto
termination
  by (relation "measure (\<lambda>(radius, q, r, hexes). nat (min radius (- q + radius) + 1 - r))") auto

function generateHexGrid_outer :: "int \<Rightarrow> int \<Rightarrow> Hex list \<Rightarrow> Hex list" where
  "generateHexGrid_outer radius q hexes =
     (if q \<le> radius
      then generateHexGrid_outer radius (q + 1)
             (generateHexGrid_inner radius q (max (- radius) (- q - radius)) hexes)
      else hexes)"
  by pat_completeness auto
termination
  by (relation "measure (\<lambda>(radius, q, hexes). nat (radius + 1 - q))") auto

definition generateHexGrid :: "int \<Rightarrow> Hex list" where
  "generateHexGrid radius = generateHexGrid_outer radius (- radius) []"

declare generateHexGrid_inner.simps [simp del]
declare generateHexGrid_outer.simps [simp del]

text \<open>The row of column \<open>q\<close>: what one run of the inner loop appends.\<close>

definition hex_row :: "int \<Rightarrow> int \<Rightarrow> Hex list" where
  "hex_row radius q = map (createHex q) [max (- radius) (- q - radius) .. min radius (- q + radius)]"

section \<open>Coordinate projection (page.tsx)\<close>

text \<open>
  \<^verbatim>\<open>
  function hexToPixel(hex, size) {
    const x = size * (3 / 2) * hex.q;
    const y = size * Math.sqrt(3) * (hex.r + hex.q / 2);
    return { x, y };
  }
  \<close>
  The returned object \<open>{x, y}\<close> is the record \<open>Point\<close>. The parameters are written
  \<open>hex'\<close> and \<open>size'\<close>: \<open>size\<close> is a constant of HOL, and \<open>hex\<close> is a field of
  \<open>Tile\<close> below.
\<close>

record Point =
  point_x :: real
  point_y :: real

definition hexToPixel :: "Hex \<Rightarrow> real \<Rightarrow> Point" where
  "hexToPixel hex' size' =
     (let x = size' * (3 / 2) * real_of_int (hex_q hex');
          y = size' * sqrt 3 * (real_of_int (hex_r hex') + real_of_int (hex_q hex') / 2)
      in \<lparr>point_x = x, point_y = y\<rparr>)"

text \<open>
  The projection as the specification words it (section 4.2):
  x = size * 1.5 * q, y = size * sqrt 3 * (r + q / 2).
\<close>

definition spec_projection :: "int \<Rightarrow> int \<Rightarrow> real \<Rightarrow> real \<times> real" where
  "spec_projection q r size' =
     (size' * 1.5 * real_of_int q, size' * sqrt 3 * (real_of_int r + real_of_int q / 2))"

section \<open>Planets and tiles\<close>

text \<open>
  Modelled from the spec: the module \<open>./planets\<close> (the catalog \<open>planets\<close> and the
  record \<open>mecatol\<close>) is not among the sources. A planet record is
  \<open>{name: string, resources: integer, influence: integer}\<close> (section 3), which are also
  the fields \<open>Tile\<close> expects of it. The catalog and \<open>mecatol\<close> are parameters of \<open>Home\<close>.
\<close>

record Planet =
  planet_name :: string
  planet_resources :: int
  planet_influence :: int

text \<open>
  \<^verbatim>\<open>interface Tile { hex: Hex; name: string; resources: number; influence: number; }\<close>
  At run time a tile is the object \<open>{ ...planet, hex }\<close>, and \<open>planet\<close> may be
  \<open>undefined\<close>; spreading \<open>undefined\<close> adds no property, and reading a missing
  property yields \<open>undefined\<close>. So the three planet fields are optional here, with
  \<open>None\<close> for \<open>undefined\<close>.
\<close>

record Tile =
  hex :: Hex
  name :: "string option"
  resources :: "int option"
  influence :: "int option"

text \<open>The object literal \<^verbatim>\<open>{ ...planet, hex }\<close>.\<close>

fun spread_planet :: "Planet option \<Rightarrow> Hex \<Rightarrow> Tile" where
  "spread_planet None h = \<lparr>hex = h, name = None, resources = None, influence = None\<rparr>"
| "spread_planet (Some p) h =
     \<lparr>hex = h, name = Some (planet_name p), resources = Some (planet_resources p),
      influence = Some (planet_influence p)\<rparr>"

text \<open>The planet record a tile was built from, read back off its fields.\<close>

definition tile_planet :: "Tile \<Rightarrow> Planet option" where
  "tile_planet t =
     (case (name t, resources t, influence t) of
        (Some n, Some rs, Some infl) \<Rightarrow>
          Some \<lparr>planet_name = n, planet_resources = rs, planet_influence = infl\<rparr>
      | _ \<Rightarrow> None)"

section \<open>Randomness\<close>

text \<open>
  ECMAScript specifies \<open>Math.random()\<close> to return a number that is at least 0 and less
  than 1. The type \<open>draw\<close> holds exactly these numbers; \<open>draw_value\<close> reads one as a real.
  The calls are modelled by an explicit source of draws \<open>rnd\<close> and a counter \<open>k\<close> of the
  draws consumed so far: the \<open>k\<close>-th call returns \<open>rnd k\<close>. So the index
  \<open>Math.floor(Math.random() * n)\<close> lies within 0 and \<open>n - 1\<close> for a positive \<open>n\<close>, and
  every array access of \<open>shuffle\<close> below is in range.
\<close>

typedef draw = "{x :: real. 0 \<le> x \<and> x < 1}"
  morphisms draw_value Abs_draw
  by (rule exI [of _ 0]) simp

type_synonym random_source = "nat \<Rightarrow> draw"

text \<open>\<^verbatim>\<open>Math.floor(Math.random() * n)\<close>, at draw \<open>k\<close>.\<close>

definition random_floor :: "random_source \<Rightarrow> nat \<Rightarrow> real \<Rightarrow> int" where
  "random_floor rnd k n = \<lfloor>draw_value (rnd k) * n\<rfloor>"

section \<open>shuffle (page.tsx)\<close>

text \<open>
  \<^verbatim>\<open>
  function shuffle<T>(array: T[]): T[] {
    let copy = [...array]
    for (let i = copy.length - 1; i > 0; i--) {
      let j = Math.floor(Math.random() * (i + 1));
      [copy[i], copy[j]] = [copy[j], copy[i]];
    }
    return copy
  }
  \<close>
  Arrays are mutable objects, and the claim about the input array depends on \<open>copy\<close>
  being a different object. So the arrays live in a store, a list of arrays addressed by
  position; \<open>[...array]\<close> allocates a new array at the end of the store.
\<close>

type_synonym 'a store = "'a list list"

definition array_spread :: "'a store \<Rightarrow> nat \<Rightarrow> 'a store \<times> nat" where
  "array_spread st array = (st @ [st ! array], length st)"

text \<open>
  \<^verbatim>\<open>[copy[i], copy[j]] = [copy[j], copy[i]]\<close>: both reads happen first, then
  \<open>copy[i]\<close> is written, then \<open>copy[j]\<close>.
\<close>

definition swap :: "'a list \<Rightarrow> int \<Rightarrow> int \<Rightarrow> 'a list" where
  "swap copy i j =
     (let a = copy ! nat j; b = copy ! nat i
      in (copy[nat i := a])[nat j := b])"

function shuffle_loop ::
  "random_source \<Rightarrow> nat \<Rightarrow> int \<Rightarrow> nat \<Rightarrow> 'a store \<Rightarrow> 'a store \<times> nat" where
  "shuffle_loop rnd k i copy st =
     (if 0 < i
      then (let j = random_floor rnd k (real_of_int i + 1)
            in shuffle_loop rnd (k + 1) (i - 1) copy (st[copy := swap (st ! copy) i j]))
      else (st, k))"
  by pat_completeness auto
termination
  by (relation "measure (\<lambda>(rnd, k, i, copy, st). nat i)") auto

declare shuffle_loop.simps [simp del]

text \<open>
  \<open>shuffle_store\<close> returns the store, the address of the returned array and the draw
  counter after the call.
\<close>

definition shuffle_store ::
  "random_source \<Rightarrow> nat \<Rightarrow> 'a store \<Rightarrow> nat \<Rightarrow> 'a store \<times> nat \<times> nat" where
  "shuffle_store rnd k st array =
     (let (st1, copy) = array_spread st array;
          (st2, k') = shuffle_loop rnd k (int (length (st1 ! copy)) - 1) copy st1
      in (st2, copy, k'))"

text \<open>The value returned for an array value: the call in a store holding just that array.\<close>

definition shuffle :: "random_source \<Rightarrow> nat \<Rightarrow> 'a list \<Rightarrow> 'a list \<times> nat" where
  "shuffle rnd k array =
     (let (st, copy, k') = shuffle_store rnd k [array] 0 in (st ! copy, k'))"

section \<open>Board setup: Home (page.tsx)\<close>

text \<open>
  \<open>Array.prototype.splice(start, deleteCount)\<close> as ECMAScript defines it: a negative
  \<open>start\<close> counts from the end, both arguments are clamped to the array. It returns the
  removed elements and leaves the rest in the array. (The name \<open>splice\<close> is taken in
  HOL's list library.)
\<close>

definition array_splice :: "'a list \<Rightarrow> int \<Rightarrow> int \<Rightarrow> 'a list \<times> 'a list" where
  "array_splice xs start deleteCount =
     (let len = int (length xs);
          actualStart = (if start < 0 then max (len + start) 0 else min start len);
          actualDeleteCount = min (max deleteCount 0) (len - actualStart)
      in (take (nat actualDeleteCount) (drop (nat actualStart) xs),
          take (nat actualStart) xs @ drop (nat (actualStart + actualDeleteCount)) xs))"

text \<open>\<open>xs[0]\<close>: \<open>undefined\<close> on an empty array.\<close>

definition index0 :: "'a list \<Rightarrow> 'a option" where
  "index0 xs = (case xs of [] \<Rightarrow> None | x # _ \<Rightarrow> Some x)"

text \<open>
  \<^verbatim>\<open>
  export default function Home() {
    const hexes = generateHexGrid(3);
    let planetDeck = shuffle(planets);
    const tiles: Tile[] = hexes.map((hex) => {
      if (hex.q === 0 && hex.r === 0) {
        return { ...mecatol, hex };
      }
      const planet = planetDeck.splice(
        Math.floor(Math.random() * planetDeck.length), 1)[0];
      return { ...planet, hex };
    });
    return <HexGrid tiles={tiles} />;
  }
  \<close>
  \<open>Home_map\<close> is the \<open>map\<close> with its callback, which mutates \<open>planetDeck\<close> and draws
  random numbers: the deck and the draw counter are passed along. \<open>Home\<close> returns the
  tiles it hands to \<open>HexGrid\<close>.
\<close>

fun Home_map :: "random_source \<Rightarrow> Planet \<Rightarrow> Hex list \<Rightarrow> Planet list \<Rightarrow> nat \<Rightarrow> Tile list" where
  "Home_map rnd mecatol [] planetDeck k = []"
| "Home_map rnd mecatol (h # hexes) planetDeck k =
     (if hex_q h = 0 \<and> hex_r h = 0
      then spread_planet (Some mecatol) h # Home_map rnd mecatol hexes planetDeck k
      else (let (removed, planetDeck') =
                  array_splice planetDeck (random_floor rnd k (real (length planetDeck))) 1;
                planet = index0 removed
            in spread_planet planet h # Home_map rnd mecatol hexes planetDeck' (k + 1)))"

definition Home :: "random_source \<Rightarrow> Planet list \<Rightarrow> Planet \<Rightarrow> Tile list" where
  "Home rnd planets mecatol =
     (let hexes = generateHexGrid 3;
          (planetDeck, k) = shuffle rnd 0 planets
      in Home_map rnd mecatol hexes planetDeck k)"

text \<open>The center cell, as the callback tests it.\<close>

definition is_center :: "Hex \<Rightarrow> bool" where
  "is_center h = (hex_q h = 0 \<and> hex_r h = 0)"

text \<open>
  Concrete inputs for the closed instances below: a random source that always draws 0,
  one that draws 1/2 and then 0, a center record, and a catalog of 36 pairwise different
  records.
\<close>

definition zero_source :: random_source where
  "zero_source = (\<lambda>k. Abs_draw 0)"

definition half_then_zero :: random_source where
  "half_then_zero = (\<lambda>k. if k = 0 then Abs_draw (1 / 2) else Abs_draw 0)"

definition mecatol_rex :: Planet where
  "mecatol_rex = \<lparr>planet_name = ''Mecatol Rex'', planet_resources = 1, planet_influence = 6\<rparr>"

definition catalog36 :: "Planet list" where
  "catalog36 =
     map (\<lambda>i. \<lparr>planet_name = ''P'', planet_resources = int i, planet_influence = 0\<rparr>) [0 ..< 36]"

section \<open>Drawing: drawHex and renderGrid (page.tsx)\<close>

text \<open>
  The 2D context is the only surface the renderer touches. It is modelled by the
  properties the code sets and by the list \<open>drawn\<close> of the drawing calls made so far, each
  recorded with the properties it reads when called (a fill with the fill style, a text
  with fill style, font and alignment). The font string
  \<^verbatim>\<open>`${px}px Arial`\<close> is kept as its two parts.
\<close>

datatype Font = Font real string

datatype draw_op =
    ClearRect real real real real
  | BeginPath
  | LineTo real real
  | ClosePath
  | Fill string
  | Stroke string real
  | FillText string real real string Font string string

record Ctx =
  fillStyle :: string
  strokeStyle :: string
  lineWidth :: real
  font :: Font
  textAlign :: string
  textBaseline :: string
  drawn :: "draw_op list"

definition clearRect :: "real \<Rightarrow> real \<Rightarrow> real \<Rightarrow> real \<Rightarrow> Ctx \<Rightarrow> Ctx" where
  "clearRect x y w h ctx = ctx\<lparr>drawn := drawn ctx @ [ClearRect x y w h]\<rparr>"

definition beginPath :: "Ctx \<Rightarrow> Ctx" where
  "beginPath ctx = ctx\<lparr>drawn := drawn ctx @ [BeginPath]\<rparr>"

definition lineTo :: "real \<Rightarrow> real \<Rightarrow> Ctx \<Rightarrow> Ctx" where
  "lineTo x y ctx = ctx\<lparr>drawn := drawn ctx @ [LineTo x y]\<rparr>"

definition closePath :: "Ctx \<Rightarrow> Ctx" where
  "closePath ctx = ctx\<lparr>drawn := drawn ctx @ [ClosePath]\<rparr>"

definition fill :: "Ctx \<Rightarrow> Ctx" where
  "fill ctx = ctx\<lparr>drawn := drawn ctx @ [Fill (fillStyle ctx)]\<rparr>"

definition stroke :: "Ctx \<Rightarrow> Ctx" where
  "stroke ctx = ctx\<lparr>drawn := drawn ctx @ [Stroke (strokeStyle ctx) (lineWidth ctx)]\<rparr>"

definition fillText :: "string \<Rightarrow> real \<Rightarrow> real \<Rightarrow> Ctx \<Rightarrow> Ctx" where
  "fillText text' x y ctx =
     ctx\<lparr>drawn := drawn ctx
        @ [FillText text' x y (fillStyle ctx) (font ctx) (textAlign ctx) (textBaseline ctx)]\<rparr>"

text \<open>
  \<^verbatim>\<open>
  function drawHex(ctx, centerX, centerY, size) {
    const angles = Array.from({ length: 6 }, (_, i) => (Math.PI / 3) * i);
    ctx.beginPath();
    for (const angle of angles) {
      const x = centerX + size * Math.cos(angle);
      const y = centerY + size * Math.sin(angle);
      ctx.lineTo(x, y);
    }
    ctx.closePath();
    ctx.fillStyle = `#091d66`,
    ctx.fill();
    ctx.strokeStyle = "black";
    ctx.lineWidth = 1;
    ctx.stroke();
  }
  \<close>
\<close>

definition drawHex_angles :: "real list" where
  "drawHex_angles = map (\<lambda>i. (pi / 3) * real i) [0 ..< 6]"

definition drawHex :: "Ctx \<Rightarrow> real \<Rightarrow> real \<Rightarrow> real \<Rightarrow> Ctx" where
  "drawHex ctx centerX centerY size' =
     (let ctx1 = beginPath ctx;
          ctx2 = foldl (\<lambda>c angle.
                   (let x = centerX + size' * cos angle;
                        y = centerY + size' * sin angle
                    in lineTo x y c)) ctx1 drawHex_angles;
          ctx3 = closePath ctx2;
          ctx4 = fill (ctx3\<lparr>fillStyle := ''#091d66''\<rparr>);
          ctx5 = stroke (ctx4\<lparr>strokeStyle := ''black'', lineWidth := 1\<rparr>)
      in ctx5)"

text \<open>
  \<open>String(n)\<close> for the numbers of a tile: the decimal digits of an integer, and
  \<open>"undefined"\<close> for a missing field.
\<close>

definition digit_char :: "nat \<Rightarrow> char" where
  "digit_char d = char_of (48 + d)"

function decimal :: "nat \<Rightarrow> string" where
  "decimal n = (if n < 10 then [digit_char n] else decimal (n div 10) @ [digit_char (n mod 10)])"
  by pat_completeness auto
termination
  by (relation "measure id") auto

declare decimal.simps [simp del]

definition String_number :: "int option \<Rightarrow> string" where
  "String_number v =
     (case v of
        None \<Rightarrow> ''undefined''
      | Some n \<Rightarrow> if n < 0 then CHR ''-'' # decimal (nat (- n)) else decimal (nat n))"

text \<open>
  \<^verbatim>\<open>
  function renderGrid(ctx, tiles, size, canvas, offset) {
    ctx.clearRect(0, 0, canvas.width, canvas.height);
    for (const tile of tiles) {
      const { x, y } = hexToPixel(tile.hex, size);
      const centerX = x + canvas.width / 2 + offset.x;
      const centerY = y + canvas.height / 2 + offset.y;
      drawHex(ctx, centerX, centerY, size);
      if (tile.name) {
        ctx.fillStyle = "white";
        ctx.font = `${size / 6}px Arial`;
        ctx.textAlign = "center";
        ctx.textBaseline = "middle";
        ctx.fillText(tile.name, centerX, centerY + (size / 2 + size / 7.5));
        ctx.fillText(String(tile.resources), centerX - 35, centerY + (size / 3 + 10) - 10);
        ctx.fillText(String(tile.influence), centerX - 30, centerY + (size / 3 + 10));
      }
    }
  }
  \<close>
  \<open>tile.name\<close> is falsy when it is \<open>undefined\<close> or the empty string. \<open>renderGrid_tile\<close>
  is the body of the loop.
\<close>

record Size =
  width :: real
  height :: real

definition falsy :: "string option \<Rightarrow> bool" where
  "falsy v = (case v of None \<Rightarrow> True | Some s \<Rightarrow> s = [])"

definition tile_center :: "Tile \<Rightarrow> real \<Rightarrow> Size \<Rightarrow> Point \<Rightarrow> real \<times> real" where
  "tile_center tile size' canvas offset' =
     (let p = hexToPixel (hex tile) size';
          centerX = point_x p + width canvas / 2 + point_x offset';
          centerY = point_y p + height canvas / 2 + point_y offset'
      in (centerX, centerY))"

definition renderGrid_tile :: "real \<Rightarrow> Size \<Rightarrow> Point \<Rightarrow> Ctx \<Rightarrow> Tile \<Rightarrow> Ctx" where
  "renderGrid_tile size' canvas offset' ctx tile =
     (let (centerX, centerY) = tile_center tile size' canvas offset';
          ctx1 = drawHex ctx centerX centerY size'
      in case name tile of
           None \<Rightarrow> ctx1
         | Some n \<Rightarrow>
             if n = [] then ctx1
             else (let ctx2 = ctx1\<lparr>fillStyle := ''white'', font := Font (size' / 6) ''Arial'',
                                 textAlign := ''center'', textBaseline := ''middle''\<rparr>;
                       ctx3 = fillText n centerX (centerY + (size' / 2 + size' / 7.5)) ctx2;
                       ctx4 = fillText (String_number (resources tile)) (centerX - 35)
                                (centerY + (size' / 3 + 10) - 10) ctx3;
                       ctx5 = fillText (String_number (influence tile)) (centerX - 30)
                                (centerY + (size' / 3 + 10)) ctx4
                   in ctx5))"

definition renderGrid :: "Ctx \<Rightarrow> Tile list \<Rightarrow> real \<Rightarrow> Size \<Rightarrow> Point \<Rightarrow> Ctx" where
  "renderGrid ctx tiles size' canvas offset' =
     foldl (renderGrid_tile size' canvas offset')
       (clearRect 0 0 (width canvas) (height canvas) ctx) tiles"

text \<open>The drawing calls a context has received beyond those of an earlier context.\<close>

definition is_text :: "draw_op \<Rightarrow> bool" where
  "is_text c = (case c of FillText _ _ _ _ _ _ _ \<Rightarrow> True | _ \<Rightarrow> False)"

text \<open>A fresh 2D context: the canvas defaults, nothing drawn.\<close>

definition fresh_ctx :: Ctx where
  "fresh_ctx =
     \<lparr>fillStyle = ''#000000'', strokeStyle = ''#000000'', lineWidth = 1,
      font = Font 10 ''sans-serif'', textAlign = ''start'', textBaseline = ''alphabetic'',
      drawn = []\<rparr>"

section \<open>The interaction controller: HexGrid (page.tsx)\<close>

text \<open>
  \<^verbatim>\<open>
  function HexGrid({ hexSize = 75, tiles, zoomSpeed = 1, panSpeed = 2 }) {
    const canvasRef = useRef<HTMLCanvasElement>(null);
    const [canvasSize, setCanvasSize] = useState({ width: 0, height: 0 });
    const offset = useRef({ x: 0, y: 0 });
    const zoom = useRef(1);
    const frameRef = useRef<number>(0);
    const isDragging = useRef(false);
    const lastMousePosition = useRef({ x: 0, y: 0 });
  \<close>
  The five refs are the fields of \<open>Refs\<close>; a handler takes the refs and returns them
  updated. The props \<open>hexSize\<close>, \<open>zoomSpeed\<close>, \<open>panSpeed\<close> are parameters.
\<close>

record Refs =
  offset :: Point
  zoom :: real
  frameRef :: nat
  isDragging :: bool
  lastMousePosition :: Point

definition initial_refs :: Refs where
  "initial_refs =
     \<lparr>offset = \<lparr>point_x = 0, point_y = 0\<rparr>, zoom = 1, frameRef = 0, isDragging = False,
      lastMousePosition = \<lparr>point_x = 0, point_y = 0\<rparr>\<rparr>"

definition default_hexSize :: real where
  "default_hexSize = 75"

definition default_zoomSpeed :: real where
  "default_zoomSpeed = 1"

definition default_panSpeed :: real where
  "default_panSpeed = 2"

text \<open>The fields of the events that the handlers read.\<close>

record WheelEvent =
  deltaY :: real

record MouseEvent =
  clientX :: real
  clientY :: real

text \<open>
  \<^verbatim>\<open>
  const handleWheel = (event: WheelEvent) => {
    event.preventDefault();
    const delta = (event.deltaY < 0 ? 0.1 : -0.1) * zoomSpeed;
    zoom.current = Math.min(Math.max(zoom.current + delta, 0.5), 2);
  };
  \<close>
\<close>

definition handleWheel :: "real \<Rightarrow> WheelEvent \<Rightarrow> Refs \<Rightarrow> Refs" where
  "handleWheel zoomSpeed event refs =
     (let delta = (if deltaY event < 0 then 0.1 else - 0.1) * zoomSpeed
      in refs\<lparr>zoom := min (max (zoom refs + delta) 0.5) 2\<rparr>)"

text \<open>
  \<^verbatim>\<open>
  const handleMouseDown = (event: MouseEvent) => {
    isDragging.current = true;
    lastMousePosition.current = { x: event.clientX, y: event.clientY };
  };
  const handleMouseMove = (event: MouseEvent) => {
    if (!isDragging.current) return;
    const dx = (event.clientX - lastMousePosition.current.x) * panSpeed;
    const dy = (event.clientY - lastMousePosition.current.y) * panSpeed;
    offset.current = { x: offset.current.x + dx, y: offset.current.y + dy };
    lastMousePosition.current = { x: event.clientX, y: event.clientY };
  };
  const handleMouseUp = () => {
    isDragging.current = false;
  };
  \<close>
\<close>

definition handleMouseDown :: "MouseEvent \<Rightarrow> Refs \<Rightarrow> Refs" where
  "handleMouseDown event refs =
     refs\<lparr>isDragging := True,
          lastMousePosition := \<lparr>point_x = clientX event, point_y = clientY event\<rparr>\<rparr>"

definition handleMouseMove :: "real \<Rightarrow> MouseEvent \<Rightarrow> Refs \<Rightarrow> Refs" where
  "handleMouseMove panSpeed event refs =
     (if \<not> isDragging refs then refs
      else (let dx = (clientX event - point_x (lastMousePosition refs)) * panSpeed;
                dy = (clientY event - point_y (lastMousePosition refs)) * panSpeed
            in refs\<lparr>offset := \<lparr>point_x = point_x (offset refs) + dx,
                                point_y = point_y (offset refs) + dy\<rparr>,
                    lastMousePosition := \<lparr>point_x = clientX event, point_y = clientY event\<rparr>\<rparr>))"

definition handleMouseUp :: "Refs \<Rightarrow> Refs" where
  "handleMouseUp refs = refs\<lparr>isDragging := False\<rparr>"

text \<open>
  Event sequences. A run of wheel events from a state; a drag: a press followed by moves.
\<close>

definition wheel_events :: "real \<Rightarrow> WheelEvent list \<Rightarrow> Refs \<Rightarrow> Refs" where
  "wheel_events zoomSpeed events refs = foldl (\<lambda>s e. handleWheel zoomSpeed e s) refs events"

definition drag :: "real \<Rightarrow> MouseEvent \<Rightarrow> MouseEvent list \<Rightarrow> Refs \<Rightarrow> Refs" where
  "drag panSpeed press moves refs =
     foldl (\<lambda>s e. handleMouseMove panSpeed e s) (handleMouseDown press refs) moves"

text \<open>
  The sum the specification speaks of (section 8): the per-move deltas of the pointer
  position, each scaled by the pan speed. \<open>move_deltas previous moves\<close> lists the
  deltas of the moves, the first one taken from the position \<open>previous\<close>.
\<close>

fun move_deltas :: "real \<times> real \<Rightarrow> MouseEvent list \<Rightarrow> (real \<times> real) list" where
  "move_deltas previous [] = []"
| "move_deltas previous (e # es) =
     (clientX e - fst previous, clientY e - snd previous)
       # move_deltas (clientX e, clientY e) es"

definition scaled_delta_sum :: "real \<Rightarrow> MouseEvent \<Rightarrow> MouseEvent list \<Rightarrow> real \<times> real" where
  "scaled_delta_sum panSpeed press moves =
     (let ds = move_deltas (clientX press, clientY press) moves
      in (sum_list (map (\<lambda>d. fst d * panSpeed) ds), sum_list (map (\<lambda>d. snd d * panSpeed) ds)))"

section \<open>Mounting and teardown: the effect of HexGrid\<close>

text \<open>
  The effect registers five listeners on the canvas and starts the redraw loop; its
  cleanup undoes both. What the browser keeps for the page is modelled by \<open>World\<close>:
  \<^item> \<open>callbacks\<close>: the map of animation frame callbacks, handle to callback, in order;
  \<^item> \<open>callback_identifier\<close>: the animation frame callback identifier, the last handle given out
    (handles start at 1);
  \<^item> \<open>listeners\<close>: the canvas's event listener list, event type and callback;
  \<^item> \<open>refs\<close>, \<open>canvasSize\<close>: the component's refs and state; \<open>window\<close>: the viewport;
  \<^item> \<open>rendered\<close>: the calls of \<open>renderGrid\<close> made so far, each with its size, canvas
    and offset arguments (the context and the tiles never change).
  The callbacks are closures: \<open>Render\<close> is \<open>render\<close> of page.tsx, which reads the refs
  when it runs; \<open>Render_000 zoom windowSize offset\<close> is \<open>render\<close> of the earlier version
  (part_000), which closes over the state values of the render that created it.
\<close>

datatype callback = Render | Render_000 real Size Point

datatype handler = HandleWheel | HandleMouseDown | HandleMouseMove | HandleMouseUp

record World =
  refs :: Refs
  canvasSize :: Size
  window :: Size
  rendered :: "(real \<times> Size \<times> Point) list"
  callbacks :: "(nat \<times> callback) list"
  callback_identifier :: nat
  listeners :: "(string \<times> handler) list"

definition initial_world :: "Size \<Rightarrow> World" where
  "initial_world viewport =
     \<lparr>refs = initial_refs, canvasSize = \<lparr>width = 0, height = 0\<rparr>, window = viewport,
      rendered = [], callbacks = [], callback_identifier = 0, listeners = []\<rparr>"

text \<open>
  The browser's side, after the HTML standard. \<open>requestAnimationFrame\<close> gives out the
  next handle and stores the callback under it. \<open>cancelAnimationFrame\<close> takes an
  \<open>unsigned long\<close>: a number is its own handle, and any other value, such as a function,
  converts to 0, which is no handle. \<open>addEventListener\<close> ignores a listener already
  present; \<open>removeEventListener\<close> removes the listener of that type and callback.
\<close>

datatype js_value = Number nat | Function callback

definition to_handle :: "js_value \<Rightarrow> nat" where
  "to_handle v = (case v of Number n \<Rightarrow> n | Function _ \<Rightarrow> 0)"

definition requestAnimationFrame :: "callback \<Rightarrow> World \<Rightarrow> nat \<times> World" where
  "requestAnimationFrame cb w =
     (let handle = callback_identifier w + 1
      in (handle, w\<lparr>callback_identifier := handle, callbacks := callbacks w @ [(handle, cb)]\<rparr>))"

definition cancelAnimationFrame :: "js_value \<Rightarrow> World \<Rightarrow> World" where
  "cancelAnimationFrame v w =
     w\<lparr>callbacks := filter (\<lambda>(handle, cb). handle \<noteq> to_handle v) (callbacks w)\<rparr>"

definition addEventListener :: "string \<Rightarrow> handler \<Rightarrow> World \<Rightarrow> World" where
  "addEventListener type' h w =
     (if (type', h) \<in> set (listeners w) then w
      else w\<lparr>listeners := listeners w @ [(type', h)]\<rparr>)"

definition removeEventListener :: "string \<Rightarrow> handler \<Rightarrow> World \<Rightarrow> World" where
  "removeEventListener type' h w = w\<lparr>listeners := removeAll (type', h) (listeners w)\<rparr>"

text \<open>
  page.tsx:
  \<^verbatim>\<open>
    useEffect(() => {
      const canvas = canvasRef.current;
      if (!canvas) return;
      const ctx = canvas.getContext("2d", { alpha: false });
      if (!ctx) return;
      const render = () => {
        const windowSize = { width: window.innerWidth, height: window.innerHeight }
        setCanvasSize(windowSize);
        renderGrid(ctx, tiles, hexSize * zoom.current, windowSize, offset.current);
        frameRef.current = requestAnimationFrame(render);
      };
      ...
      canvas.addEventListener("wheel", handleWheel);
      canvas.addEventListener("mousedown", handleMouseDown);
      canvas.addEventListener("mousemove", handleMouseMove);
      canvas.addEventListener("mouseup", handleMouseUp);
      canvas.addEventListener("mouseleave", handleMouseUp);
      frameRef.current = requestAnimationFrame(render);
      return () => {
        cancelAnimationFrame(frameRef.current);
        canvas.removeEventListener("wheel", handleWheel);
        canvas.removeEventListener("mousedown", handleMouseDown);
        canvas.removeEventListener("mousemove", handleMouseMove);
        canvas.removeEventListener("mouseup", handleMouseUp);
        canvas.removeEventListener("mouseleave", handleMouseUp);
      };
    }, [tiles, hexSize, panSpeed, zoomSpeed]);
  \<close>
  \<open>effect\<close> is the body of the effect; its first argument says whether the canvas and its
  context are there. It returns the world and whether it returned a cleanup function;
  \<open>teardown\<close> runs the cleanup when there is one.
\<close>

definition render :: "real \<Rightarrow> World \<Rightarrow> World" where
  "render hexSize w =
     (let windowSize = window w;
          w1 = w\<lparr>canvasSize := windowSize\<rparr>;
          w2 = w1\<lparr>rendered := rendered w1
                   @ [(hexSize * zoom (refs w1), windowSize, offset (refs w1))]\<rparr>;
          (handle, w3) = requestAnimationFrame Render w2
      in w3\<lparr>refs := (refs w3)\<lparr>frameRef := handle\<rparr>\<rparr>)"

definition add_listeners :: "World \<Rightarrow> World" where
  "add_listeners w =
     addEventListener ''mouseleave'' HandleMouseUp
       (addEventListener ''mouseup'' HandleMouseUp
         (addEventListener ''mousemove'' HandleMouseMove
           (addEventListener ''mousedown'' HandleMouseDown
             (addEventListener ''wheel'' HandleWheel w))))"

definition remove_listeners :: "World \<Rightarrow> World" where
  "remove_listeners w =
     removeEventListener ''mouseleave'' HandleMouseUp
       (removeEventListener ''mouseup'' HandleMouseUp
         (removeEventListener ''mousemove'' HandleMouseMove
           (removeEventListener ''mousedown'' HandleMouseDown
             (removeEventListener ''wheel'' HandleWheel w))))"

definition effect :: "bool \<Rightarrow> World \<Rightarrow> World \<times> bool" where
  "effect canvas_and_ctx w =
     (if \<not> canvas_and_ctx then (w, False)
      else (let w1 = add_listeners w;
                (handle, w2) = requestAnimationFrame Render w1
            in (w2\<lparr>refs := (refs w2)\<lparr>frameRef := handle\<rparr>\<rparr>, True)))"

definition cleanup :: "World \<Rightarrow> World" where
  "cleanup w = remove_listeners (cancelAnimationFrame (Number (frameRef (refs w))) w)"

definition teardown :: "World \<times> bool \<Rightarrow> World" where
  "teardown m = (case m of (w, has_cleanup) \<Rightarrow> if has_cleanup then cleanup w else w)"

text \<open>
  The earlier version (part_000) keeps zoom, offset and window size in component state;
  its \<open>render\<close> does not keep the handle, and its cleanup passes \<open>render\<close> itself:
  \<^verbatim>\<open>
      const render = () => {
        renderGrid(ctx, tiles, hexSize * zoom, windowSize, offset);
        requestAnimationFrame(render);
      };
      canvas.addEventListener("wheel", handleWheel);
      ... (the same five listeners)
      requestAnimationFrame(render);
      return () => {
        cancelAnimationFrame(render);
        canvas.removeEventListener("wheel", handleWheel);
        ... (the same five listeners)
      };
    }, [hexSize, tiles, zoom, offset]);
  \<close>
\<close>

definition render_000 :: "real \<Rightarrow> real \<Rightarrow> Size \<Rightarrow> Point \<Rightarrow> World \<Rightarrow> World" where
  "render_000 hexSize zoom' windowSize offset' w =
     (let w1 = w\<lparr>rendered := rendered w @ [(hexSize * zoom', windowSize, offset')]\<rparr>;
          (handle, w2) = requestAnimationFrame (Render_000 zoom' windowSize offset') w1
      in w2)"

definition effect_000 :: "bool \<Rightarrow> real \<Rightarrow> Size \<Rightarrow> Point \<Rightarrow> World \<Rightarrow> World \<times> bool" where
  "effect_000 canvas_and_ctx zoom' windowSize offset' w =
     (if \<not> canvas_and_ctx then (w, False)
      else (let w1 = add_listeners w;
                (handle, w2) = requestAnimationFrame (Render_000 zoom' windowSize offset') w1
            in (w2, True)))"

definition cleanup_000 :: "real \<Rightarrow> Size \<Rightarrow> Point \<Rightarrow> World \<Rightarrow> World" where
  "cleanup_000 zoom' windowSize offset' w =
     remove_listeners (cancelAnimationFrame (Function (Render_000 zoom' windowSize offset')) w)"

definition teardown_000 :: "real \<Rightarrow> Size \<Rightarrow> Point \<Rightarrow> World \<times> bool \<Rightarrow> World" where
  "teardown_000 zoom' windowSize offset' m =
     (case m of (w, has_cleanup) \<Rightarrow>
        if has_cleanup then cleanup_000 zoom' windowSize offset' w else w)"

text \<open>
  A display refresh, after the HTML standard's "run the animation frame callbacks": the
  handles present at the start are visited in order; a handle still in the map is removed
  from it and its callback invoked. Callbacks requested meanwhile wait for the next
  refresh.
\<close>

definition invoke :: "real \<Rightarrow> callback \<Rightarrow> World \<Rightarrow> World" where
  "invoke hexSize cb w =
     (case cb of
        Render \<Rightarrow> render hexSize w
      | Render_000 zoom' windowSize offset' \<Rightarrow> render_000 hexSize zoom' windowSize offset' w)"

definition run_callback :: "real \<Rightarrow> World \<Rightarrow> nat \<Rightarrow> World" where
  "run_callback hexSize w handle =
     (case map_of (callbacks w) handle of
        None \<Rightarrow> w
      | Some cb \<Rightarrow>
          invoke hexSize cb
            (w\<lparr>callbacks := filter (\<lambda>(handle', cb'). handle' \<noteq> handle) (callbacks w)\<rparr>))"

definition animation_frame :: "real \<Rightarrow> World \<Rightarrow> World" where
  "animation_frame hexSize w = foldl (run_callback hexSize) w (map fst (callbacks w))"

text \<open>\<open>n\<close> display refreshes in a row.\<close>

fun animation_frames :: "real \<Rightarrow> nat \<Rightarrow> World \<Rightarrow> World" where
  "animation_frames hexSize 0 w = w"
| "animation_frames hexSize (Suc n) w = animation_frames hexSize n (animation_frame hexSize w)"

text \<open>
  The redraw loop of page.tsx keeps one request pending, and \<open>frameRef\<close> holds its
  handle.
\<close>

definition loop_pending :: "World \<Rightarrow> bool" where
  "loop_pending w = (callbacks w = [(frameRef (refs w), Render)])"

text \<open>The viewport of the closed instances below.\<close>

definition viewport :: Size where
  "viewport = \<lparr>width = 800, height = 600\<rparr>"

definition origin :: Point where
  "origin = \<lparr>point_x = 0, point_y = 0\<rparr>"


section \<open>The grid generator: rows, membership, distinctness, count\<close>

lemma generateHexGrid_inner_upto:
  "generateHexGrid_inner radius q r hexes
     = hexes @ map (createHex q) [r .. min radius (- q + radius)]"
proof (induction radius q r hexes rule: generateHexGrid_inner.induct)
  case (1 radius q r hexes)
  define m where "m = min radius (- q + radius)"
  show ?case
  proof (cases "r \<le> m")
    case True
    then have u: "[r .. m] = r # [r + 1 .. m]"
      by (simp add: upto_rec1)
    have c: "r \<le> min radius (- q + radius)"
      using True unfolding m_def .
    have "generateHexGrid_inner radius q r hexes
            = generateHexGrid_inner radius q (r + 1) (hexes @ [createHex q r])"
      by (subst generateHexGrid_inner.simps) (simp only: c if_True)
    also have "\<dots> = (hexes @ [createHex q r]) @ map (createHex q) [r + 1 .. m]"
      using "1.IH" [OF c] by (simp only: m_def)
    finally show ?thesis
      using u by (simp add: m_def)
  next
    case False
    then have u: "[r .. m] = []"
      by simp
    have c: "\<not> r \<le> min radius (- q + radius)"
      using False unfolding m_def .
    have "generateHexGrid_inner radius q r hexes = hexes"
      by (subst generateHexGrid_inner.simps) (simp only: c if_False)
    then show ?thesis
      using u by (simp add: m_def)
  qed
qed

lemma generateHexGrid_inner_row:
  "generateHexGrid_inner radius q (max (- radius) (- q - radius)) hexes
     = hexes @ hex_row radius q"
  by (simp only: generateHexGrid_inner_upto hex_row_def)

lemma generateHexGrid_outer_concat:
  "generateHexGrid_outer radius q hexes
     = hexes @ concat (map (hex_row radius) [q .. radius])"
proof (induction radius q hexes rule: generateHexGrid_outer.induct)
  case (1 radius q hexes)
  show ?case
  proof (cases "q \<le> radius")
    case True
    then have u: "[q .. radius] = q # [q + 1 .. radius]"
      by (simp add: upto_rec1)
    have "generateHexGrid_outer radius q hexes
            = generateHexGrid_outer radius (q + 1) (hexes @ hex_row radius q)"
      using True
      by (subst generateHexGrid_outer.simps) (simp add: generateHexGrid_inner_row)
    also have "\<dots> = (hexes @ hex_row radius q) @ concat (map (hex_row radius) [q + 1 .. radius])"
      using True "1.IH" by (simp add: generateHexGrid_inner_row)
    finally show ?thesis
      using u by simp
  next
    case False
    then have u: "[q .. radius] = []"
      by simp
    have "generateHexGrid_outer radius q hexes = hexes"
      using False by (subst generateHexGrid_outer.simps) simp
    then show ?thesis
      using u by simp
  qed
qed

lemma generateHexGrid_rows:
  "generateHexGrid radius = concat (map (hex_row radius) [- radius .. radius])"
  by (simp add: generateHexGrid_def generateHexGrid_outer_concat)

lemma set_hex_row:
  "set (hex_row radius q)
     = createHex q ` {max (- radius) (- q - radius) .. min radius (- q + radius)}"
  by (simp add: hex_row_def)

lemma generateHexGrid_mem:
  "h \<in> set (generateHexGrid radius) \<longleftrightarrow>
     (\<exists>q r. h = createHex q r \<and> - radius \<le> q \<and> q \<le> radius
        \<and> max (- radius) (- q - radius) \<le> r \<and> r \<le> min radius (- q + radius))"
proof
  assume "h \<in> set (generateHexGrid radius)"
  then obtain q where q: "q \<in> {- radius .. radius}" and h: "h \<in> set (hex_row radius q)"
    by (auto simp: generateHexGrid_rows)
  from h obtain r where "h = createHex q r"
    and "r \<in> {max (- radius) (- q - radius) .. min radius (- q + radius)}"
    unfolding set_hex_row by blast
  with q show "\<exists>q r. h = createHex q r \<and> - radius \<le> q \<and> q \<le> radius
        \<and> max (- radius) (- q - radius) \<le> r \<and> r \<le> min radius (- q + radius)"
    by (simp only: atLeastAtMost_iff) blast
next
  assume "\<exists>q r. h = createHex q r \<and> - radius \<le> q \<and> q \<le> radius
        \<and> max (- radius) (- q - radius) \<le> r \<and> r \<le> min radius (- q + radius)"
  then obtain q r where h: "h = createHex q r" and q: "q \<in> {- radius .. radius}"
    and r: "r \<in> {max (- radius) (- q - radius) .. min radius (- q + radius)}"
    by (simp only: atLeastAtMost_iff) blast
  from h r have "h \<in> set (hex_row radius q)"
    unfolding set_hex_row by blast
  with q show "h \<in> set (generateHexGrid radius)"
    by (auto simp: generateHexGrid_rows)
qed

lemma createHex_sel [simp]:
  "hex_q (createHex q r) = q" "hex_r (createHex q r) = r" "hex_s (createHex q r) = - q - r"
  by (simp_all add: createHex_def)

lemma distinct_hex_row: "distinct (hex_row radius q)"
proof -
  have "inj_on (createHex q) A" for A
    by (rule inj_onI) (simp add: createHex_def)
  then show ?thesis
    by (simp add: hex_row_def distinct_map)
qed

lemma hex_row_column: "h \<in> set (hex_row radius q) \<Longrightarrow> hex_q h = q"
  by (auto simp: hex_row_def)

lemma distinct_concat_rows:
  "distinct qs \<Longrightarrow> distinct (concat (map (hex_row radius) qs))"
proof (induction qs)
  case Nil
  then show ?case by simp
next
  case (Cons q qs)
  have "set (hex_row radius q) \<inter> set (hex_row radius q') = {}" if "q' \<in> set qs" for q'
  proof -
    from that Cons.prems have "q \<noteq> q'" by auto
    then show ?thesis
      by (auto dest!: hex_row_column)
  qed
  with Cons show ?case
    by (auto simp: distinct_hex_row)
qed

lemma distinct_generateHexGrid: "distinct (generateHexGrid radius)"
  by (simp add: generateHexGrid_rows distinct_concat_rows)

lemma length_hex_row:
  "int (length (hex_row radius q))
     = max 0 (min radius (- q + radius) - max (- radius) (- q - radius) + 1)"
  by (simp add: hex_row_def)

lemma rows_count_upper:
  assumes "q \<le> radius + 1"
  shows "0 \<le> q \<longrightarrow>
    2 * int (length (concat (map (hex_row radius) [q .. radius])))
      = (radius - q + 1) * (3 * radius + 2 - q)"
  using assms
proof (induction q rule: int_le_induct)
  case base
  show ?case by simp
next
  case (step q)
  show ?case
  proof
    assume q0: "0 \<le> q - 1"
    with step have IH: "2 * int (length (concat (map (hex_row radius) [q .. radius])))
      = (radius - q + 1) * (3 * radius + 2 - q)"
      by simp
    from step have u: "[q - 1 .. radius] = (q - 1) # [q .. radius]"
      by (simp add: upto_rec1)
    from q0 step have len: "int (length (hex_row radius (q - 1))) = 2 * radius + 1 - (q - 1)"
      by (simp add: length_hex_row)
    show "2 * int (length (concat (map (hex_row radius) [q - 1 .. radius])))
      = (radius - (q - 1) + 1) * (3 * radius + 2 - (q - 1))"
      unfolding u using IH len by (simp add: algebra_simps)
  qed
qed

lemma rows_count_lower:
  assumes "q \<le> 0" and "0 \<le> radius"
  shows "- radius \<le> q \<longrightarrow>
    2 * int (length (concat (map (hex_row radius) [q .. radius])))
      = (radius + 1) * (3 * radius + 2) + (- q) * (4 * radius + 1 + q)"
  using assms(1)
proof (induction q rule: int_le_induct)
  case base
  from assms(2) rows_count_upper [of 0 radius] show ?case by simp
next
  case (step q)
  show ?case
  proof
    assume q0: "- radius \<le> q - 1"
    with step have IH: "2 * int (length (concat (map (hex_row radius) [q .. radius])))
      = (radius + 1) * (3 * radius + 2) + (- q) * (4 * radius + 1 + q)"
      by simp
    from step assms(2) have u: "[q - 1 .. radius] = (q - 1) # [q .. radius]"
      by (simp add: upto_rec1)
    from q0 step have len: "int (length (hex_row radius (q - 1))) = 2 * radius + 1 + (q - 1)"
      by (simp add: length_hex_row)
    show "2 * int (length (concat (map (hex_row radius) [q - 1 .. radius])))
      = (radius + 1) * (3 * radius + 2) + (- (q - 1)) * (4 * radius + 1 + (q - 1))"
      unfolding u using IH len by (simp add: algebra_simps)
  qed
qed

lemma length_generateHexGrid:
  assumes "0 \<le> radius"
  shows "int (length (generateHexGrid radius)) = 3 * radius\<^sup>2 + 3 * radius + 1"
proof -
  from assms rows_count_lower [of "- radius" radius]
  have "2 * int (length (generateHexGrid radius))
          = (radius + 1) * (3 * radius + 2) + radius * (3 * radius + 1)"
    by (simp add: generateHexGrid_rows)
  then show ?thesis
    by (simp add: algebra_simps power2_eq_square)
qed

lemma generateHexGrid_cube:
  assumes "h \<in> set (generateHexGrid radius)"
  shows "hex_q h + hex_r h + hex_s h = 0"
    and "max \<bar>hex_q h\<bar> (max \<bar>hex_r h\<bar> \<bar>hex_s h\<bar>) \<le> radius"
proof -
  from assms obtain q r where h: "h = createHex q r"
    and b: "- radius \<le> q" "q \<le> radius"
      "max (- radius) (- q - radius) \<le> r" "r \<le> min radius (- q + radius)"
    unfolding generateHexGrid_mem by blast
  show "hex_q h + hex_r h + hex_s h = 0"
    by (simp add: h)
  from b show "max \<bar>hex_q h\<bar> (max \<bar>hex_r h\<bar> \<bar>hex_s h\<bar>) \<le> radius"
    by (simp add: h) linarith
qed

text \<open>
  Claim C1. For every radius \<open>R \<ge> 0\<close>, \<open>generateHexGrid R\<close> returns exactly
  \<open>3 R\<^sup>2 + 3 R + 1\<close> coordinates, pairwise distinct, each with \<open>q + r + s = 0\<close> and
  \<open>max (|q|, |r|, |s|) \<le> R\<close>.
\<close>

theorem generateHexGrid_count_distinct_in_range:
  assumes "0 \<le> radius"
  shows "int (length (generateHexGrid radius)) = 3 * radius\<^sup>2 + 3 * radius + 1
    \<and> distinct (generateHexGrid radius)
    \<and> (\<forall>h \<in> set (generateHexGrid radius).
          hex_q h + hex_r h + hex_s h = 0
          \<and> max \<bar>hex_q h\<bar> (max \<bar>hex_r h\<bar> \<bar>hex_s h\<bar>) \<le> radius)"
proof (intro conjI ballI)
  show "int (length (generateHexGrid radius)) = 3 * radius\<^sup>2 + 3 * radius + 1"
    using assms by (rule length_generateHexGrid)
  show "distinct (generateHexGrid radius)"
    by (rule distinct_generateHexGrid)
next
  fix h
  assume "h \<in> set (generateHexGrid radius)"
  then show "hex_q h + hex_r h + hex_s h = 0"
    and "max \<bar>hex_q h\<bar> (max \<bar>hex_r h\<bar> \<bar>hex_s h\<bar>) \<le> radius"
    by (rule generateHexGrid_cube)+
qed

text \<open>The board's radius, 3: 37 distinct coordinates within the radius.\<close>

theorem generateHexGrid_radius_3_witness:
  "(0::int) \<le> 3
    \<and> int (length (generateHexGrid 3)) = 37
    \<and> distinct (generateHexGrid 3)
    \<and> list_all (\<lambda>h. hex_q h + hex_r h + hex_s h = 0
          \<and> max \<bar>hex_q h\<bar> (max \<bar>hex_r h\<bar> \<bar>hex_s h\<bar>) \<le> 3) (generateHexGrid 3)"
  using generateHexGrid_count_distinct_in_range [of 3]
  by (simp add: list_all_iff)

section \<open>shuffle: a permutation in a new array\<close>

lemma random_floor_range:
  assumes "0 < n"
  shows "0 \<le> random_floor rnd k n" and "real_of_int (random_floor rnd k n) < n"
proof -
  from draw_value [of "rnd k"] have r: "0 \<le> draw_value (rnd k)" "draw_value (rnd k) < 1"
    by simp_all
  with assms show "0 \<le> random_floor rnd k n"
    by (simp add: random_floor_def)
  from r assms have "draw_value (rnd k) * n < n"
    by simp
  moreover have "real_of_int \<lfloor>draw_value (rnd k) * n\<rfloor> \<le> draw_value (rnd k) * n"
    by (rule of_int_floor_le)
  ultimately show "real_of_int (random_floor rnd k n) < n"
    unfolding random_floor_def by linarith
qed

lemma mset_swap_in_range:
  assumes "0 \<le> i" "nat i < length xs" "0 \<le> j" "nat j < length xs"
  shows "mset (swap xs i j) = mset xs"
  using assms by (simp add: swap_def mset_swap)

lemma length_swap [simp]: "length (swap xs i j) = length xs"
  by (simp add: swap_def)

lemma shuffle_loop_store:
  assumes "copy < length st" and "i < int (length (st ! copy))"
  shows "length (fst (shuffle_loop rnd k i copy st)) = length st
    \<and> take copy (fst (shuffle_loop rnd k i copy st)) = take copy st
    \<and> drop (Suc copy) (fst (shuffle_loop rnd k i copy st)) = drop (Suc copy) st
    \<and> mset (fst (shuffle_loop rnd k i copy st) ! copy) = mset (st ! copy)"
  using assms
proof (induction rnd k i copy st rule: shuffle_loop.induct)
  case (1 rnd k i copy st)
  show ?case
  proof (cases "0 < i")
    case False
    then have "shuffle_loop rnd k i copy st = (st, k)"
      by (subst shuffle_loop.simps) simp
    then show ?thesis by simp
  next
    case True
    define j where "j = random_floor rnd k (real_of_int i + 1)"
    define st' where "st' = st[copy := swap (st ! copy) i j]"
    from True have step: "shuffle_loop rnd k i copy st = shuffle_loop rnd (k + 1) (i - 1) copy st'"
      by (subst shuffle_loop.simps) (simp add: j_def st'_def Let_def)
    from True have j: "0 \<le> j" "j \<le> i"
      using random_floor_range [of "real_of_int i + 1" rnd k]
      by (simp_all add: j_def)
    from "1.prems"(1) have at: "st' ! copy = swap (st ! copy) i j"
      by (simp add: st'_def)
    from True j "1.prems"(2) have m: "mset (st' ! copy) = mset (st ! copy)"
      unfolding at by (intro mset_swap_in_range) simp_all
    have l: "length st' = length st"
      by (simp add: st'_def)
    have p: "take copy st' = take copy st" "drop (Suc copy) st' = drop (Suc copy) st"
      by (simp_all add: st'_def)
    from "1.prems" have "i - 1 < int (length (st' ! copy))"
      by (simp add: at)
    with "1.IH" [OF True j_def] "1.prems" l
    have "length (fst (shuffle_loop rnd (k + 1) (i - 1) copy st')) = length st'
      \<and> take copy (fst (shuffle_loop rnd (k + 1) (i - 1) copy st')) = take copy st'
      \<and> drop (Suc copy) (fst (shuffle_loop rnd (k + 1) (i - 1) copy st')) = drop (Suc copy) st'
      \<and> mset (fst (shuffle_loop rnd (k + 1) (i - 1) copy st') ! copy) = mset (st' ! copy)"
      by (simp add: st'_def)
    with m l p show ?thesis
      by (simp add: step)
  qed
qed

lemma shuffle_store_props:
  assumes "array < length st"
  shows "fst (snd (shuffle_store rnd k st array)) = length st"
    and "length (fst (shuffle_store rnd k st array)) = Suc (length st)"
    and "take (length st) (fst (shuffle_store rnd k st array)) = st"
    and "mset (fst (shuffle_store rnd k st array) ! length st) = mset (st ! array)"
proof -
  define st1 where "st1 = st @ [st ! array]"
  define i where "i = int (length (st1 ! length st)) - 1"
  have e: "shuffle_store rnd k st array
    = (fst (shuffle_loop rnd k i (length st) st1), length st, snd (shuffle_loop rnd k i (length st) st1))"
    by (simp add: shuffle_store_def array_spread_def st1_def i_def split_beta)
  have "length st < length st1" "i < int (length (st1 ! length st))"
    by (simp_all add: st1_def i_def)
  from shuffle_loop_store [OF this, of rnd k]
  have L: "length (fst (shuffle_loop rnd k i (length st) st1)) = length st1"
    "take (length st) (fst (shuffle_loop rnd k i (length st) st1)) = take (length st) st1"
    "mset (fst (shuffle_loop rnd k i (length st) st1) ! length st) = mset (st1 ! length st)"
    by simp_all
  show "fst (snd (shuffle_store rnd k st array)) = length st"
    by (simp add: e)
  show "length (fst (shuffle_store rnd k st array)) = Suc (length st)"
    using L(1) by (simp add: e st1_def)
  show "take (length st) (fst (shuffle_store rnd k st array)) = st"
    using L(2) by (simp add: e st1_def)
  show "mset (fst (shuffle_store rnd k st array) ! length st) = mset (st ! array)"
    using L(3) by (simp add: e st1_def)
qed

lemma mset_shuffle: "mset (fst (shuffle rnd k array)) = mset array"
  using shuffle_store_props(1,4) [of 0 "[array]" rnd k]
  by (simp add: shuffle_def split_beta)

text \<open>
  Claim C9. For every input array (an array \<open>array\<close> of the store) and every random
  source, \<open>shuffle\<close> returns a new array \<open>copy\<close>, different from the input, that is a
  permutation of the input (same elements with multiplicity, same length), and the input
  array, as every array the store held before the call, is unmodified.
\<close>

theorem shuffle_permutation_input_unmodified:
  assumes "array < length st"
  shows "(case shuffle_store rnd k st array of
           (st', copy, k') \<Rightarrow>
             copy = length st \<and> copy \<noteq> array
             \<and> length st' = Suc (length st)
             \<and> mset (st' ! copy) = mset (st ! array)
             \<and> length (st' ! copy) = length (st ! array)
             \<and> st' ! array = st ! array
             \<and> take (length st) st' = st)"
proof -
  note P = shuffle_store_props [OF assms, of rnd k]
  from P(4) have "size (mset (fst (shuffle_store rnd k st array) ! length st)) = size (mset (st ! array))"
    by simp
  then have len: "length (fst (shuffle_store rnd k st array) ! length st) = length (st ! array)"
    by simp
  from assms have "take (length st) (fst (shuffle_store rnd k st array)) ! array
      = fst (shuffle_store rnd k st array) ! array"
    by simp
  with P(3) have same: "fst (shuffle_store rnd k st array) ! array = st ! array"
    by simp
  from P len same assms show ?thesis
    by (simp add: split_beta)
qed


lemma draw_value_half_then_zero:
  "draw_value (half_then_zero 0) = 1 / 2" "draw_value (half_then_zero (Suc n)) = 0"
  by (simp_all add: half_then_zero_def Abs_draw_inverse)

text \<open>Shuffling \<open>[1, 2, 3]\<close> with the draws 1/2, 0: the copy is \<open>[3, 1, 2]\<close>.\<close>

theorem shuffle_permutation_input_unmodified_witness:
  "(0::nat) < length [[1, 2, 3 :: nat]]
   \<and> shuffle_store half_then_zero 0 [[1, 2, 3 :: nat]] 0 = ([[1, 2, 3], [3, 1, 2]], 1, 2)"
proof -
  have lt: "(0::nat) < length [[1, 2, 3 :: nat]]"
    by simp
  have ev: "shuffle_store half_then_zero 0 [[1, 2, 3 :: nat]] 0 = ([[1, 2, 3], [3, 1, 2]], 1, 2)"
    by (simp add: shuffle_store_def array_spread_def shuffle_loop.simps random_floor_def swap_def
        draw_value_half_then_zero)
  from shuffle_permutation_input_unmodified [OF lt, of half_then_zero 0] lt ev show ?thesis
    by simp
qed

section \<open>Board setup: assignment without replacement\<close>

lemma generateHexGrid_3:
  "generateHexGrid 3 =
   [createHex (- 3) 0, createHex (- 3) 1, createHex (- 3) 2, createHex (- 3) 3,
    createHex (- 2) (- 1), createHex (- 2) 0, createHex (- 2) 1, createHex (- 2) 2,
    createHex (- 2) 3, createHex (- 1) (- 2), createHex (- 1) (- 1), createHex (- 1) 0,
    createHex (- 1) 1, createHex (- 1) 2, createHex (- 1) 3, createHex 0 (- 3),
    createHex 0 (- 2), createHex 0 (- 1), createHex 0 0, createHex 0 1, createHex 0 2,
    createHex 0 3, createHex 1 (- 3), createHex 1 (- 2), createHex 1 (- 1),
    createHex 1 0, createHex 1 1, createHex 1 2, createHex 2 (- 3), createHex 2 (- 2),
    createHex 2 (- 1), createHex 2 0, createHex 2 1, createHex 3 (- 3),
    createHex 3 (- 2), createHex 3 (- 1), createHex 3 0]"
  by (simp add: generateHexGrid_rows hex_row_def upto.simps)

lemma splice_one_in_range:
  assumes "0 \<le> j" and "nat j < length xs"
  shows "array_splice xs j 1 = ([xs ! nat j], take (nat j) xs @ drop (Suc (nat j)) xs)"
proof -
  from assms have "take (Suc 0) (drop (nat j) xs) = [xs ! nat j]"
    by (simp add: hd_drop_conv_nth take_Suc)
  moreover from assms have "min j (int (length xs)) = j" "min 1 (int (length xs) - j) = 1"
    by simp_all
  moreover from assms have "nat (j + 1) = Suc (nat j)"
    by simp
  ultimately show ?thesis
    using assms by (simp add: array_splice_def Let_def)
qed

lemma splice_one_empty: "array_splice [] j 1 = ([], [])"
  by (simp add: array_splice_def)

lemma mset_remove_nth:
  assumes "n < length xs"
  shows "mset xs = add_mset (xs ! n) (mset (take n xs @ drop (Suc n) xs))"
proof -
  from assms have "xs = take n xs @ xs ! n # drop (Suc n) xs"
    by (simp add: id_take_nth_drop [symmetric])
  then have "mset xs = mset (take n xs @ xs ! n # drop (Suc n) xs)"
    by simp
  then show ?thesis
    by simp
qed

lemma tile_planet_spread [simp]: "tile_planet (spread_planet p h) = p"
  by (cases p) (simp_all add: tile_planet_def)

lemma hex_spread [simp]: "hex (spread_planet p h) = h"
  by (cases p) simp_all

declare spread_planet.simps [simp del]

lemma distinct_sub_mset:
  assumes "mset ps \<subseteq># mset xs" and "distinct xs"
  shows "distinct ps"
proof -
  have "count (mset ps) a \<le> 1" for a
  proof -
    from assms(1) have "count (mset ps) a \<le> count (mset xs) a"
      by (rule mset_subset_eq_count)
    also from assms(2) have "\<dots> \<le> 1"
      by (simp add: distinct_count_atmost_1)
    finally show ?thesis .
  qed
  moreover have "0 < count (mset ps) a" if "a \<in> set ps" for a
    using that by simp
  ultimately have "count (mset ps) a = 1" if "a \<in> set ps" for a
    using that by (simp add: le_less order.antisym Suc_le_eq)
  then show ?thesis
    by (simp add: distinct_count_atmost_1 count_eq_zero_iff)
qed

text \<open>The number of cells of a list of coordinates that are not the center.\<close>

lemma Home_map_assign:
  "\<exists>ps. mset ps \<subseteq># mset planetDeck
    \<and> length ps = min (length planetDeck) (length (filter (\<lambda>h. \<not> is_center h) hexes))
    \<and> map hex (Home_map rnd mecatol hexes planetDeck k) = hexes
    \<and> (\<forall>t \<in> set (Home_map rnd mecatol hexes planetDeck k).
          t = spread_planet (tile_planet t) (hex t)
          \<and> (is_center (hex t) \<longrightarrow> tile_planet t = Some mecatol))
    \<and> map tile_planet (filter (\<lambda>t. \<not> is_center (hex t)) (Home_map rnd mecatol hexes planetDeck k))
        = map Some ps
          @ replicate (length (filter (\<lambda>h. \<not> is_center h) hexes) - length ps) None"
proof (induction hexes arbitrary: planetDeck k)
  case Nil
  show ?case by simp
next
  case (Cons h hexes)
  let ?n = "length (filter (\<lambda>h. \<not> is_center h) hexes)"
  show ?case
  proof (cases "is_center h")
    case True
    from Cons.IH [of planetDeck k] obtain ps where
      "mset ps \<subseteq># mset planetDeck" "length ps = min (length planetDeck) ?n"
      "map hex (Home_map rnd mecatol hexes planetDeck k) = hexes"
      "\<forall>t \<in> set (Home_map rnd mecatol hexes planetDeck k).
          t = spread_planet (tile_planet t) (hex t)
          \<and> (is_center (hex t) \<longrightarrow> tile_planet t = Some mecatol)"
      "map tile_planet (filter (\<lambda>t. \<not> is_center (hex t)) (Home_map rnd mecatol hexes planetDeck k))
        = map Some ps @ replicate (?n - length ps) None"
      by blast
    with True show ?thesis
      by (intro exI [of _ ps]) (simp add: is_center_def)
  next
    case False
    then have nc: "(hex_q h = 0 \<and> hex_r h = 0) = False"
      by (simp add: is_center_def)
    show ?thesis
    proof (cases planetDeck)
      case Nil
      from Cons.IH [of "[]" "k + 1"] obtain ps where
        "mset ps \<subseteq># mset ([] :: Planet list)"
        "map hex (Home_map rnd mecatol hexes [] (k + 1)) = hexes"
        "\<forall>t \<in> set (Home_map rnd mecatol hexes [] (k + 1)).
          t = spread_planet (tile_planet t) (hex t)
          \<and> (is_center (hex t) \<longrightarrow> tile_planet t = Some mecatol)"
        "map tile_planet (filter (\<lambda>t. \<not> is_center (hex t)) (Home_map rnd mecatol hexes [] (k + 1)))
          = map Some ps @ replicate (?n - length ps) None"
        by blast
      moreover from this(1) have "ps = []"
        by simp
      ultimately show ?thesis
        using False Nil
        by (intro exI [of _ "[]"]) (simp add: nc splice_one_empty index0_def)
    next
      case (Cons p deck)
      define j where "j = random_floor rnd k (real (length planetDeck))"
      define deck' where "deck' = take (nat j) planetDeck @ drop (Suc (nat j)) planetDeck"
      from Cons have pos: "0 < real (length planetDeck)"
        by simp
      from random_floor_range [OF pos, of rnd k] have j: "0 \<le> j" "nat j < length planetDeck"
        by (simp_all add: j_def)
      then have sp: "array_splice planetDeck j 1 = ([planetDeck ! nat j], deck')"
        by (simp add: splice_one_in_range deck'_def)
      from j have ms: "mset planetDeck = add_mset (planetDeck ! nat j) (mset deck')"
        unfolding deck'_def by (intro mset_remove_nth)
      from j have ld: "length planetDeck = Suc (length deck')"
        by (simp add: deck'_def)
      from Cons.IH [of deck' "k + 1"] obtain ps where ps:
        "mset ps \<subseteq># mset deck'" "length ps = min (length deck') ?n"
        "map hex (Home_map rnd mecatol hexes deck' (k + 1)) = hexes"
        "\<forall>t \<in> set (Home_map rnd mecatol hexes deck' (k + 1)).
          t = spread_planet (tile_planet t) (hex t)
          \<and> (is_center (hex t) \<longrightarrow> tile_planet t = Some mecatol)"
        "map tile_planet (filter (\<lambda>t. \<not> is_center (hex t)) (Home_map rnd mecatol hexes deck' (k + 1)))
          = map Some ps @ replicate (?n - length ps) None"
        by blast
      have step: "Home_map rnd mecatol (h # hexes) planetDeck k
        = spread_planet (Some (planetDeck ! nat j)) h # Home_map rnd mecatol hexes deck' (k + 1)"
        using sp by (simp add: nc j_def [symmetric] index0_def)
      from ps(1) have sub: "mset (planetDeck ! nat j # ps) \<subseteq># mset planetDeck"
        by (simp add: ms)
      show ?thesis
        unfolding step using False ps(2-) sub ld
        by (intro exI [of _ "planetDeck ! nat j # ps"]) (simp add: is_center_def nc)
    qed
  qed
qed


lemma length_noncenter_3:
  "length (filter (\<lambda>h. \<not> is_center h) (generateHexGrid 3)) = 36"
  by (simp add: generateHexGrid_3 is_center_def createHex_def)

lemma generateHexGrid_3_center: "generateHexGrid 3 ! 18 = createHex 0 0"
  by (simp add: generateHexGrid_3)

lemma length_generateHexGrid_3: "length (generateHexGrid 3) = 37"
  by (simp add: generateHexGrid_3)

lemma Home_assign:
  "\<exists>ps. mset ps \<subseteq># mset planets
    \<and> length ps = min (length planets) 36
    \<and> map hex (Home rnd planets mecatol) = generateHexGrid 3
    \<and> (\<forall>t \<in> set (Home rnd planets mecatol).
          t = spread_planet (tile_planet t) (hex t)
          \<and> (is_center (hex t) \<longrightarrow> tile_planet t = Some mecatol))
    \<and> map tile_planet (filter (\<lambda>t. \<not> is_center (hex t)) (Home rnd planets mecatol))
        = map Some ps @ replicate (36 - length ps) None"
proof -
  define planetDeck where "planetDeck = fst (shuffle rnd 0 planets)"
  define k where "k = snd (shuffle rnd 0 planets)"
  have H: "Home rnd planets mecatol = Home_map rnd mecatol (generateHexGrid 3) planetDeck k"
    by (simp add: Home_def planetDeck_def k_def split_beta)
  have m: "mset planetDeck = mset planets"
    unfolding planetDeck_def by (rule mset_shuffle)
  then have "size (mset planetDeck) = size (mset planets)"
    by simp
  then have l: "length planetDeck = length planets"
    by simp
  from Home_map_assign [of planetDeck "generateHexGrid 3" rnd mecatol k]
  show ?thesis
    unfolding H length_noncenter_3 m l .
qed

lemma Home_center_tile:
  assumes "map hex tiles = generateHexGrid 3"
    and "\<forall>t \<in> set tiles. t = spread_planet (tile_planet t) (hex t)
          \<and> (is_center (hex t) \<longrightarrow> tile_planet t = Some mecatol)"
  shows "tiles ! 18 = spread_planet (Some mecatol) (createHex 0 0)"
proof -
  from assms(1) have "length (map hex tiles) = 37"
    by (simp only: length_generateHexGrid_3)
  then have len: "18 < length tiles"
    by simp
  then have "hex (tiles ! 18) = map hex tiles ! 18"
    by simp
  with assms(1) have h: "hex (tiles ! 18) = createHex 0 0"
    by (simp only: generateHexGrid_3_center)
  then have c: "is_center (hex (tiles ! 18))"
    by (simp add: is_center_def)
  from len have "tiles ! 18 \<in> set tiles"
    by simp
  with assms(2) have "tiles ! 18 = spread_planet (tile_planet (tiles ! 18)) (hex (tiles ! 18))"
    and "is_center (hex (tiles ! 18)) \<longrightarrow> tile_planet (tiles ! 18) = Some mecatol"
    by blast+
  with c h show ?thesis
    by simp
qed

text \<open>
  Claim C2. For every random source, when \<open>Home\<close> runs with a catalog of at least 36
  records (cell count - 1), the tile at coordinate (0,0) is \<open>{ ...mecatol, hex }\<close>, and the
  tiles at the 36 other coordinates are built from records \<open>ps\<close> drawn from the catalog without
  replacement: no record is used more often than the catalog holds it, so the records
  are pairwise distinct when the catalog's are.
\<close>

theorem Home_assigns_without_replacement:
  assumes "36 \<le> length planets"
  shows "\<exists>ps. length ps = 36
    \<and> mset ps \<subseteq># mset planets
    \<and> (distinct planets \<longrightarrow> distinct ps)
    \<and> map hex (Home rnd planets mecatol) = generateHexGrid 3
    \<and> Home rnd planets mecatol ! 18 = spread_planet (Some mecatol) (createHex 0 0)
    \<and> (\<forall>t \<in> set (Home rnd planets mecatol).
          t = spread_planet (tile_planet t) (hex t)
          \<and> (is_center (hex t) \<longrightarrow> tile_planet t = Some mecatol))
    \<and> map tile_planet (filter (\<lambda>t. \<not> is_center (hex t)) (Home rnd planets mecatol))
        = map Some ps"
proof -
  from Home_assign [of planets rnd mecatol] obtain ps where ps:
    "mset ps \<subseteq># mset planets" "length ps = min (length planets) 36"
    "map hex (Home rnd planets mecatol) = generateHexGrid 3"
    "\<forall>t \<in> set (Home rnd planets mecatol).
          t = spread_planet (tile_planet t) (hex t)
          \<and> (is_center (hex t) \<longrightarrow> tile_planet t = Some mecatol)"
    "map tile_planet (filter (\<lambda>t. \<not> is_center (hex t)) (Home rnd planets mecatol))
        = map Some ps @ replicate (36 - length ps) None"
    by blast
  from ps(2) assms have l: "length ps = 36"
    by simp
  from ps(1) have d: "distinct planets \<longrightarrow> distinct ps"
    by (blast intro: distinct_sub_mset)
  from ps(3,4) have c: "Home rnd planets mecatol ! 18 = spread_planet (Some mecatol) (createHex 0 0)"
    by (rule Home_center_tile)
  from ps(5) l have "map tile_planet (filter (\<lambda>t. \<not> is_center (hex t)) (Home rnd planets mecatol))
        = map Some ps"
    by simp
  with l ps(1,3,4) d c show ?thesis
    by blast
qed

lemma distinct_catalog36: "distinct catalog36"
  by (simp add: catalog36_def distinct_map inj_on_def)

text \<open>The catalog of 36 different records, every draw 0: 36 different records are assigned.\<close>

theorem Home_assigns_without_replacement_witness:
  "36 \<le> length catalog36
   \<and> (\<exists>ps. length ps = 36 \<and> mset ps \<subseteq># mset catalog36 \<and> distinct ps
        \<and> Home zero_source catalog36 mecatol_rex ! 18
            = spread_planet (Some mecatol_rex) (createHex 0 0)
        \<and> map tile_planet
            (filter (\<lambda>t. \<not> is_center (hex t)) (Home zero_source catalog36 mecatol_rex))
            = map Some ps)"
proof -
  have l: "36 \<le> length catalog36"
    by (simp add: catalog36_def)
  from Home_assigns_without_replacement [OF l, of zero_source mecatol_rex]
    distinct_catalog36 l
  show ?thesis
    by blast
qed

lemma mset_sub_same_size:
  assumes "A \<subseteq># B" and "size A = size B"
  shows "A = B"
proof (rule ccontr)
  assume "A \<noteq> B"
  with assms(1) have "A \<subset># B"
    by (simp add: subset_mset.less_le)
  then have "size A < size B"
    by (rule mset_subset_size)
  with assms(2) show False
    by simp
qed

text \<open>
  Claim C3, as the code has it. When the catalog has fewer than 36 entries, \<open>Home\<close>
  does not fail: it returns a tile for each of the 37 coordinates. The center tile is
  \<open>{ ...mecatol, hex }\<close>; in grid order the first non-center tiles use up the catalog
  (\<open>ps\<close> is a permutation of it), and every later non-center tile is \<open>{ hex }\<close> alone,
  with no planet field.
\<close>

theorem Home_short_catalog_hex_only_tiles:
  assumes "length planets < 36"
  shows "\<exists>ps. mset ps = mset planets
    \<and> map hex (Home rnd planets mecatol) = generateHexGrid 3
    \<and> Home rnd planets mecatol ! 18 = spread_planet (Some mecatol) (createHex 0 0)
    \<and> (\<forall>t \<in> set (Home rnd planets mecatol).
          t = spread_planet (tile_planet t) (hex t)
          \<and> (is_center (hex t) \<longrightarrow> tile_planet t = Some mecatol))
    \<and> map tile_planet (filter (\<lambda>t. \<not> is_center (hex t)) (Home rnd planets mecatol))
        = map Some ps @ replicate (36 - length planets) None"
proof -
  from Home_assign [of planets rnd mecatol] obtain ps where ps:
    "mset ps \<subseteq># mset planets" "length ps = min (length planets) 36"
    "map hex (Home rnd planets mecatol) = generateHexGrid 3"
    "\<forall>t \<in> set (Home rnd planets mecatol).
          t = spread_planet (tile_planet t) (hex t)
          \<and> (is_center (hex t) \<longrightarrow> tile_planet t = Some mecatol)"
    "map tile_planet (filter (\<lambda>t. \<not> is_center (hex t)) (Home rnd planets mecatol))
        = map Some ps @ replicate (36 - length ps) None"
    by blast
  from ps(2) assms have l: "length ps = length planets"
    by simp
  with ps(1) have m: "mset ps = mset planets"
    by (intro mset_sub_same_size) simp_all
  from ps(3,4) have c: "Home rnd planets mecatol ! 18 = spread_planet (Some mecatol) (createHex 0 0)"
    by (rule Home_center_tile)
  from ps(5) l have "map tile_planet (filter (\<lambda>t. \<not> is_center (hex t)) (Home rnd planets mecatol))
        = map Some ps @ replicate (36 - length planets) None"
    by simp
  with m ps(3,4) c show ?thesis
    by blast
qed

text \<open>A catalog of one record: one tile gets it, 35 tiles are hex-only.\<close>

theorem Home_short_catalog_hex_only_tiles_witness:
  "length [mecatol_rex] < 36
   \<and> map tile_planet
       (filter (\<lambda>t. \<not> is_center (hex t)) (Home zero_source [mecatol_rex] mecatol_rex))
       = Some mecatol_rex # replicate 35 None"
proof -
  have l: "length [mecatol_rex] < 36"
    by simp
  from Home_short_catalog_hex_only_tiles [OF l, of zero_source mecatol_rex]
  obtain ps where "mset ps = mset [mecatol_rex]"
    and "map tile_planet
       (filter (\<lambda>t. \<not> is_center (hex t)) (Home zero_source [mecatol_rex] mecatol_rex))
       = map Some ps @ replicate (36 - length [mecatol_rex]) None"
    by blast
  moreover from this(1) have "ps = [mecatol_rex]"
    by (simp add: mset_single_iff_right [symmetric] del: mset.simps) 
  ultimately show ?thesis
    by simp
qed

lemma shuffle_empty: "shuffle rnd k [] = ([], k)"
  by (simp add: shuffle_def shuffle_store_def array_spread_def shuffle_loop.simps)

text \<open>
  Claim C3 as stated fails: with an empty catalog \<open>Home\<close> does not fail. It returns
  37 tiles, the center with its record and 36 tiles without any planet data.
\<close>

theorem Home_empty_catalog_returns_tiles:
  "map tile_planet (Home zero_source [] mecatol_rex)
     = replicate 18 None @ [Some mecatol_rex] @ replicate 18 None"
  by (simp add: Home_def shuffle_empty generateHexGrid_3 createHex_def splice_one_empty index0_def
      numeral_eq_Suc)

section \<open>Negative radius, projection, zoom and pan\<close>

text \<open>
  Claim C7, as the code has it. \<open>generateHexGrid\<close> has no check of its argument: for
  every negative radius the outer loop's condition fails at once, and the function returns
  the empty grid.
\<close>

theorem generateHexGrid_negative_radius_empty:
  assumes "radius < 0"
  shows "generateHexGrid radius = []"
proof -
  from assms have "[- radius .. radius] = []"
    by simp
  then show ?thesis
    by (simp add: generateHexGrid_rows)
qed

text \<open>Radius -2.\<close>

theorem generateHexGrid_negative_radius_empty_witness:
  "(- 2 :: int) < 0 \<and> generateHexGrid (- 2) = []"
  using generateHexGrid_negative_radius_empty [of "- 2"] by simp

text \<open>
  Claim C7 as stated fails: radius -1 is not rejected, the result is the empty grid.
\<close>

theorem generateHexGrid_minus_1_returns_empty: "generateHexGrid (- 1) = []"
  by (simp add: generateHexGrid_rows)

text \<open>
  Claim C8. For every axial coordinate and every size, \<open>hexToPixel\<close> returns the point
  the specification's projection gives, x = size * 1.5 * q and
  y = size * sqrt 3 * (r + q / 2); the coordinate (0,0) is projected to (0,0) for every
  size.
\<close>

theorem hexToPixel_is_spec_projection:
  "(point_x (hexToPixel (createHex q r) size'), point_y (hexToPixel (createHex q r) size'))
     = spec_projection q r size'
   \<and> point_x (hexToPixel (createHex q r) size') = size' * 1.5 * real_of_int q
   \<and> point_y (hexToPixel (createHex q r) size')
       = size' * sqrt 3 * (real_of_int r + real_of_int q / 2)
   \<and> hexToPixel (createHex 0 0) size' = \<lparr>point_x = 0, point_y = 0\<rparr>"
  by (simp add: hexToPixel_def spec_projection_def Let_def)

text \<open>Size 75, coordinate (2, -1): x = 225, y = 0.\<close>

theorem hexToPixel_is_spec_projection_witness:
  "hexToPixel (createHex 2 (- 1)) 75 = \<lparr>point_x = 225, point_y = 0\<rparr>
   \<and> hexToPixel (createHex 0 0) 75 = \<lparr>point_x = 0, point_y = 0\<rparr>"
  using hexToPixel_is_spec_projection [of 2 "- 1" 75] hexToPixel_is_spec_projection [of 0 0 75]
  by (simp add: hexToPixel_def Let_def)

lemma handleWheel_zoom_bounds:
  "0.5 \<le> zoom (handleWheel zoomSpeed event rs)" "zoom (handleWheel zoomSpeed event rs) \<le> 2"
  by (simp_all add: handleWheel_def Let_def)

lemma wheel_events_snoc:
  "wheel_events zoomSpeed (events @ [e]) rs
     = handleWheel zoomSpeed e (wheel_events zoomSpeed events rs)"
  by (simp add: wheel_events_def)

lemma wheel_events_zoom_bounds:
  assumes "0.5 \<le> zoom rs" and "zoom rs \<le> 2"
  shows "0.5 \<le> zoom (wheel_events zoomSpeed events rs)
    \<and> zoom (wheel_events zoomSpeed events rs) \<le> 2"
proof (induction events rule: rev_induct)
  case Nil
  from assms show ?case
    by (simp add: wheel_events_def)
next
  case (snoc e events)
  show ?case
    unfolding wheel_events_snoc using handleWheel_zoom_bounds by blast
qed

text \<open>
  Claim C4. Starting from the initial zoom factor 1, after any finite sequence of wheel
  events with the default zoom speed, the zoom factor lies in [0.5, 2]; and every wheel
  event, from any state and with any zoom speed, leaves the zoom factor in [0.5, 2].
\<close>

theorem zoom_stays_clamped:
  "zoom initial_refs = 1
   \<and> 0.5 \<le> zoom (wheel_events default_zoomSpeed events initial_refs)
   \<and> zoom (wheel_events default_zoomSpeed events initial_refs) \<le> 2
   \<and> 0.5 \<le> zoom (handleWheel zoomSpeed event rs)
   \<and> zoom (handleWheel zoomSpeed event rs) \<le> 2"
proof -
  have i: "zoom initial_refs = 1"
    by (simp add: initial_refs_def)
  then have "0.5 \<le> zoom initial_refs" "zoom initial_refs \<le> 2"
    by simp_all
  from wheel_events_zoom_bounds [OF this] i handleWheel_zoom_bounds show ?thesis
    by blast
qed

text \<open>Twelve wheel events zooming in: the zoom factor stops at 2.\<close>

theorem zoom_stays_clamped_witness:
  "zoom (wheel_events default_zoomSpeed (replicate 12 \<lparr>deltaY = - 1\<rparr>) initial_refs) = 2"
proof -
  from zoom_stays_clamped [of "replicate 12 \<lparr>deltaY = - 1\<rparr>"]
  have "zoom (wheel_events default_zoomSpeed (replicate 12 \<lparr>deltaY = - 1\<rparr>) initial_refs) \<le> 2"
    by blast
  moreover have "2 \<le> zoom (wheel_events default_zoomSpeed (replicate 12 \<lparr>deltaY = - 1\<rparr>) initial_refs)"
    by (simp add: wheel_events_def handleWheel_def initial_refs_def default_zoomSpeed_def
        numeral_eq_Suc)
  ultimately show ?thesis
    by simp
qed

lemma handleMouseMove_dragging:
  assumes "isDragging rs"
  shows "handleMouseMove panSpeed e rs =
    rs\<lparr>offset := \<lparr>point_x = point_x (offset rs)
                          + (clientX e - point_x (lastMousePosition rs)) * panSpeed,
                      point_y = point_y (offset rs)
                          + (clientY e - point_y (lastMousePosition rs)) * panSpeed\<rparr>,
         lastMousePosition := \<lparr>point_x = clientX e, point_y = clientY e\<rparr>\<rparr>"
  using assms by (simp add: handleMouseMove_def Let_def)

lemma moves_while_dragging:
  assumes "isDragging rs"
  shows "isDragging (foldl (\<lambda>s e. handleMouseMove panSpeed e s) rs moves)
    \<and> point_x (offset (foldl (\<lambda>s e. handleMouseMove panSpeed e s) rs moves))
        = point_x (offset rs)
          + sum_list (map (\<lambda>d. fst d * panSpeed)
              (move_deltas (point_x (lastMousePosition rs), point_y (lastMousePosition rs)) moves))
    \<and> point_y (offset (foldl (\<lambda>s e. handleMouseMove panSpeed e s) rs moves))
        = point_y (offset rs)
          + sum_list (map (\<lambda>d. snd d * panSpeed)
              (move_deltas (point_x (lastMousePosition rs), point_y (lastMousePosition rs)) moves))"
  using assms
proof (induction moves arbitrary: rs)
  case Nil
  then show ?case by simp
next
  case (Cons e moves)
  let ?rs' = "handleMouseMove panSpeed e rs"
  from Cons.prems have d: "isDragging ?rs'"
    by (simp add: handleMouseMove_dragging)
  from Cons.prems have
    "point_x (lastMousePosition ?rs') = clientX e" "point_y (lastMousePosition ?rs') = clientY e"
    "point_x (offset ?rs') = point_x (offset rs)
        + (clientX e - point_x (lastMousePosition rs)) * panSpeed"
    "point_y (offset ?rs') = point_y (offset rs)
        + (clientY e - point_y (lastMousePosition rs)) * panSpeed"
    by (simp_all add: handleMouseMove_dragging)
  with Cons.IH [OF d] show ?case
    by simp
qed

text \<open>
  Claim C5. For every drag (a press followed by moves), from any state, the pan offset
  changes by exactly the sum of the per-move position deltas, each scaled by the pan
  speed. A release followed by a new press sets the last pointer position to the new
  press and leaves the pan offset as it was.
\<close>

theorem pan_offset_is_sum_of_scaled_deltas:
  "point_x (offset (drag panSpeed press moves rs))
     = point_x (offset rs) + fst (scaled_delta_sum panSpeed press moves)
   \<and> point_y (offset (drag panSpeed press moves rs))
     = point_y (offset rs) + snd (scaled_delta_sum panSpeed press moves)
   \<and> offset (handleMouseDown press' (handleMouseUp rs)) = offset rs
   \<and> lastMousePosition (handleMouseDown press' (handleMouseUp rs))
     = \<lparr>point_x = clientX press', point_y = clientY press'\<rparr>
   \<and> isDragging (handleMouseDown press' (handleMouseUp rs))"
proof -
  have d: "isDragging (handleMouseDown press rs)"
    by (simp add: handleMouseDown_def)
  from moves_while_dragging [OF d, of panSpeed moves] show ?thesis
    by (simp add: drag_def scaled_delta_sum_def Let_def handleMouseDown_def handleMouseUp_def)
qed

text \<open>
  The default pan speed 2: a press at (10, 10), moves to (13, 14) and (11, 20), from the
  initial state: the offset is (2, 20).
\<close>

theorem pan_offset_is_sum_of_scaled_deltas_witness:
  "offset (drag default_panSpeed \<lparr>clientX = 10, clientY = 10\<rparr>
      [\<lparr>clientX = 13, clientY = 14\<rparr>, \<lparr>clientX = 11, clientY = 20\<rparr>] initial_refs)
     = \<lparr>point_x = 2, point_y = 20\<rparr>"
proof -
  have "scaled_delta_sum default_panSpeed \<lparr>clientX = 10, clientY = 10\<rparr>
      [\<lparr>clientX = 13, clientY = 14\<rparr>, \<lparr>clientX = 11, clientY = 20\<rparr>] = (2, 20)"
    by (simp add: scaled_delta_sum_def default_panSpeed_def)
  with pan_offset_is_sum_of_scaled_deltas [of default_panSpeed "\<lparr>clientX = 10, clientY = 10\<rparr>"
      "[\<lparr>clientX = 13, clientY = 14\<rparr>, \<lparr>clientX = 11, clientY = 20\<rparr>]" initial_refs]
  have "point_x (offset (drag default_panSpeed \<lparr>clientX = 10, clientY = 10\<rparr>
      [\<lparr>clientX = 13, clientY = 14\<rparr>, \<lparr>clientX = 11, clientY = 20\<rparr>] initial_refs)) = 2"
    and "point_y (offset (drag default_panSpeed \<lparr>clientX = 10, clientY = 10\<rparr>
      [\<lparr>clientX = 13, clientY = 14\<rparr>, \<lparr>clientX = 11, clientY = 20\<rparr>] initial_refs)) = 20"
    by (simp_all add: initial_refs_def)
  then show ?thesis
    by (cases "offset (drag default_panSpeed \<lparr>clientX = 10, clientY = 10\<rparr>
      [\<lparr>clientX = 13, clientY = 14\<rparr>, \<lparr>clientX = 11, clientY = 20\<rparr>] initial_refs)") simp
qed

section \<open>Rendering a tile without a name\<close>

lemma drawn_lineTo_loop:
  "drawn (foldl (\<lambda>c angle. lineTo (f angle) (g angle) c) ctx angles)
     = drawn ctx @ map (\<lambda>angle. LineTo (f angle) (g angle)) angles"
  by (induction angles arbitrary: ctx) (simp_all add: lineTo_def)

lemma drawn_drawHex:
  "drawn (drawHex ctx centerX centerY size')
     = drawn ctx @ [BeginPath]
       @ map (\<lambda>angle. LineTo (centerX + size' * cos angle) (centerY + size' * sin angle))
           drawHex_angles
       @ [ClosePath, Fill ''#091d66'', Stroke ''black'' 1]"
  by (simp add: drawHex_def Let_def drawn_lineTo_loop beginPath_def closePath_def fill_def
      stroke_def)

lemma renderGrid_tile_falsy:
  assumes "falsy (name tile)"
  shows "renderGrid_tile size' canvas offset' ctx tile
    = drawHex ctx (fst (tile_center tile size' canvas offset'))
        (snd (tile_center tile size' canvas offset')) size'"
  using assms
  by (simp add: renderGrid_tile_def falsy_def split_beta Let_def split: option.splits)

lemma renderGrid_snoc:
  "renderGrid ctx (tiles @ [tile]) size' canvas offset'
     = renderGrid_tile size' canvas offset' (renderGrid ctx tiles size' canvas offset') tile"
  by (simp add: renderGrid_def)

text \<open>
  Claim C10. For every tile whose name is falsy (\<open>undefined\<close> or the empty string),
  wherever it stands in the list, the drawing calls \<open>renderGrid\<close> makes for it are
  exactly those of the hexagon at the tile's projected position: the path, its fill and
  its stroke. No text is drawn for it, neither the name nor the numbers.
\<close>

theorem renderGrid_falsy_name_hexagon_only:
  assumes "falsy (name tile)"
  shows "drawn (renderGrid ctx (tiles @ [tile]) size' canvas offset')
    = drawn (renderGrid ctx tiles size' canvas offset')
      @ [BeginPath]
      @ map (\<lambda>angle.
          LineTo (point_x (hexToPixel (hex tile) size') + width canvas / 2 + point_x offset'
                    + size' * cos angle)
                 (point_y (hexToPixel (hex tile) size') + height canvas / 2 + point_y offset'
                    + size' * sin angle))
          drawHex_angles
      @ [ClosePath, Fill ''#091d66'', Stroke ''black'' 1]
    \<and> filter is_text (drawn (renderGrid ctx (tiles @ [tile]) size' canvas offset'))
      = filter is_text (drawn (renderGrid ctx tiles size' canvas offset'))"
proof -
  have "drawn (renderGrid ctx (tiles @ [tile]) size' canvas offset')
    = drawn (renderGrid ctx tiles size' canvas offset')
      @ [BeginPath]
      @ map (\<lambda>angle.
          LineTo (point_x (hexToPixel (hex tile) size') + width canvas / 2 + point_x offset'
                    + size' * cos angle)
                 (point_y (hexToPixel (hex tile) size') + height canvas / 2 + point_y offset'
                    + size' * sin angle))
          drawHex_angles
      @ [ClosePath, Fill ''#091d66'', Stroke ''black'' 1]"
    unfolding renderGrid_snoc renderGrid_tile_falsy [OF assms] drawn_drawHex
    by (simp add: tile_center_def Let_def)
  moreover have "filter is_text (map (\<lambda>angle. LineTo (f angle) (g angle)) angles) = []"
    for f g and angles :: "real list"
    by (induction angles) (simp_all add: is_text_def)
  ultimately show ?thesis
    by (simp add: is_text_def)
qed

text \<open>
  The tile \<open>{ hex }\<close> of an exhausted deck at the center of an 800 x 600 canvas, size 75:
  the only drawing calls are the clearing of the canvas and the hexagon.
\<close>

theorem renderGrid_falsy_name_hexagon_only_witness:
  "falsy (name (spread_planet None (createHex 0 0)))
   \<and> filter is_text
       (drawn (renderGrid fresh_ctx [spread_planet None (createHex 0 0)] 75 viewport origin))
       = []
   \<and> length (drawn (renderGrid fresh_ctx [spread_planet None (createHex 0 0)] 75 viewport origin))
       = 11"
proof -
  have f: "falsy (name (spread_planet None (createHex 0 0)))"
    by (simp add: falsy_def spread_planet.simps)
  have e: "drawn (renderGrid fresh_ctx [] 75 viewport origin)
    = [ClearRect 0 0 800 600]"
    by (simp add: renderGrid_def clearRect_def viewport_def fresh_ctx_def)
  from renderGrid_falsy_name_hexagon_only [OF f, of fresh_ctx "[]" 75 viewport origin]
    f e
  show ?thesis
    by (simp add: is_text_def drawHex_angles_def)
qed

section \<open>Teardown: the redraw loop and the listeners\<close>

lemma listeners_requestAnimationFrame [simp]:
  "listeners (snd (requestAnimationFrame cb w)) = listeners w"
  by (simp add: requestAnimationFrame_def Let_def)

lemma callbacks_add_listeners [simp]: "callbacks (add_listeners w) = callbacks w"
  by (simp add: add_listeners_def addEventListener_def)

lemma callbacks_remove_listeners [simp]: "callbacks (remove_listeners w) = callbacks w"
  by (simp add: remove_listeners_def removeEventListener_def)

lemma rendered_remove_listeners [simp]: "rendered (remove_listeners w) = rendered w"
  by (simp add: remove_listeners_def removeEventListener_def)

lemma listeners_add_listeners:
  assumes "listeners w = []"
  shows "listeners (add_listeners w)
    = [(''wheel'', HandleWheel), (''mousedown'', HandleMouseDown),
       (''mousemove'', HandleMouseMove), (''mouseup'', HandleMouseUp),
       (''mouseleave'', HandleMouseUp)]"
  using assms by (simp add: add_listeners_def addEventListener_def)

lemma listeners_remove_listeners:
  assumes "listeners w
    = [(''wheel'', HandleWheel), (''mousedown'', HandleMouseDown),
       (''mousemove'', HandleMouseMove), (''mouseup'', HandleMouseUp),
       (''mouseleave'', HandleMouseUp)]"
  shows "listeners (remove_listeners w) = []"
  using assms by (simp add: remove_listeners_def removeEventListener_def)

lemma effect_mounted:
  assumes "callbacks w = []" and "listeners w = []"
  shows "loop_pending (fst (effect True w))"
    and "listeners (fst (effect True w))
      = [(''wheel'', HandleWheel), (''mousedown'', HandleMouseDown),
         (''mousemove'', HandleMouseMove), (''mouseup'', HandleMouseUp),
         (''mouseleave'', HandleMouseUp)]"
    and "snd (effect True w)"
  using assms listeners_add_listeners [OF assms(2)]
  by (simp_all add: effect_def loop_pending_def requestAnimationFrame_def Let_def)

lemma animation_frame_loop:
  assumes "loop_pending w"
  shows "loop_pending (animation_frame hexSize w)"
    and "listeners (animation_frame hexSize w) = listeners w"
  using assms
  by (simp_all add: loop_pending_def animation_frame_def run_callback_def invoke_def render_def
      requestAnimationFrame_def Let_def)

lemma animation_frames_loop:
  assumes "loop_pending w"
  shows "loop_pending (animation_frames hexSize n w)
    \<and> listeners (animation_frames hexSize n w) = listeners w"
  using assms
proof (induction n arbitrary: w)
  case 0
  then show ?case by simp
next
  case (Suc n)
  from Suc.IH [OF animation_frame_loop(1) [OF Suc.prems]] animation_frame_loop(2) [OF Suc.prems]
  show ?case
    by simp
qed

lemma cleanup_clean:
  assumes "loop_pending w"
    and "listeners w
      = [(''wheel'', HandleWheel), (''mousedown'', HandleMouseDown),
         (''mousemove'', HandleMouseMove), (''mouseup'', HandleMouseUp),
         (''mouseleave'', HandleMouseUp)]"
  shows "callbacks (cleanup w) = []" and "listeners (cleanup w) = []"
proof -
  from assms(1) show "callbacks (cleanup w) = []"
    by (simp add: cleanup_def cancelAnimationFrame_def loop_pending_def to_handle_def)
  have "listeners (cancelAnimationFrame v w) = listeners w" for v
    by (simp add: cancelAnimationFrame_def)
  with assms(2) show "listeners (cleanup w) = []"
    by (simp add: cleanup_def listeners_remove_listeners)
qed

lemma animation_frames_idle:
  assumes "callbacks w = []"
  shows "animation_frames hexSize m w = w"
  using assms by (induction m) (simp_all add: animation_frame_def)

text \<open>
  page.tsx satisfies claim C6: mounted on a page with no pending callbacks and no
  listeners, after any number of display refreshes, the teardown leaves no callback
  pending and no listener attached, and no later refresh redraws.
\<close>

lemma page_tsx_teardown_clean:
  assumes "callbacks w = []" and "listeners w = []"
  shows "callbacks (teardown (animation_frames hexSize n (fst (effect b w)), snd (effect b w))) = []
    \<and> listeners (teardown (animation_frames hexSize n (fst (effect b w)), snd (effect b w))) = []
    \<and> animation_frames hexSize m
        (teardown (animation_frames hexSize n (fst (effect b w)), snd (effect b w)))
      = teardown (animation_frames hexSize n (fst (effect b w)), snd (effect b w))"
proof (cases b)
  case False
  then have "effect b w = (w, False)"
    by (simp add: effect_def)
  with assms show ?thesis
    by (simp add: teardown_def animation_frames_idle)
next
  case True
  let ?w = "animation_frames hexSize n (fst (effect True w))"
  from effect_mounted [OF assms] animation_frames_loop [of "fst (effect True w)" hexSize n]
  have "loop_pending ?w" and "listeners ?w
      = [(''wheel'', HandleWheel), (''mousedown'', HandleMouseDown),
         (''mousemove'', HandleMouseMove), (''mouseup'', HandleMouseUp),
         (''mouseleave'', HandleMouseUp)]"
    by simp_all
  from cleanup_clean [OF this] effect_mounted(3) [OF assms] True show ?thesis
    by (simp add: teardown_def animation_frames_idle)
qed

text \<open>
  Claim C6 fails on the earlier version (part_000). Mounted on a fresh page and torn
  down at once, its cleanup removes the five listeners but cancels nothing: the request
  made at mount, handle 1, is still pending, and the next display refresh redraws and
  requests the next frame.
\<close>

theorem part_000_teardown_leaves_redraw_pending:
  "callbacks (teardown_000 1 viewport origin
      (effect_000 True 1 viewport origin (initial_world viewport)))
     = [(1, Render_000 1 viewport origin)]
   \<and> listeners (teardown_000 1 viewport origin
      (effect_000 True 1 viewport origin (initial_world viewport))) = []
   \<and> rendered (teardown_000 1 viewport origin
      (effect_000 True 1 viewport origin (initial_world viewport))) = []
   \<and> rendered (animation_frame default_hexSize
      (teardown_000 1 viewport origin
        (effect_000 True 1 viewport origin (initial_world viewport))))
     = [(75, viewport, origin)]
   \<and> callbacks (animation_frame default_hexSize
      (teardown_000 1 viewport origin
        (effect_000 True 1 viewport origin (initial_world viewport))))
     = [(2, Render_000 1 viewport origin)]"
  by (simp add: teardown_000_def effect_000_def cleanup_000_def initial_world_def
      add_listeners_def addEventListener_def remove_listeners_def removeEventListener_def
      requestAnimationFrame_def cancelAnimationFrame_def to_handle_def Let_def
      animation_frame_def run_callback_def invoke_def render_000_def default_hexSize_def)

text \<open>The same scenario on page.tsx: nothing is left pending.\<close>

lemma page_tsx_teardown_at_once:
  "callbacks (teardown (effect True (initial_world viewport))) = []
   \<and> listeners (teardown (effect True (initial_world viewport))) = []"
  using page_tsx_teardown_clean [of "initial_world viewport" default_hexSize 0 True 0]
  by (simp add: initial_world_def)


end
